theory Spec2Isabelle
  imports Complex_Main "HOL-Library.Product_Lexorder" "HOL-Library.Char_ord"
    "HOL-Library.List_Lexorder" "HOL-Library.AList" "HOL-Library.Multiset"
begin

section \<open>Coinbot: the decision pipeline of the trading bot\<close>

text \<open>
  The development embeds the backend of Coinbot (\<^verbatim>\<open>coinbot/backend\<close>): the candle
  container, the MACD indicator and its signal, the Bitvavo client with its call-quota
  decorator, and the stateless MACD trading loop. Python floats are read as real numbers
  (no rounding, no NaN, no infinities); Python exceptions are values of the type
  \<open>error\<close>, and a function that can raise returns \<open>error + 'a\<close>.
\<close>

subsection \<open>Errors and Python's list indexing\<close>

datatype error =
    CoinbotUnexpectedValueError
  | CoinbotExceededNumAPICallsError
  | IndexError
  | KeyError
  | AssertionError
  | ZeroDivisionError
  | ValueError
  | FileNotFoundError

text \<open>Sequencing of computations that may raise: the first error ends the computation.\<close>

definition bnd :: "error + 'a \<Rightarrow> ('a \<Rightarrow> error + 'b) \<Rightarrow> error + 'b" where
  "bnd m f = (case m of Inl e \<Rightarrow> Inl e | Inr x \<Rightarrow> f x)"

text \<open>
  \<^verbatim>\<open>xs[i]\<close> for a list: an index below zero counts from the end, and an index outside
  the list raises \<^verbatim>\<open>IndexError\<close>.
\<close>

definition py_index :: "'a list \<Rightarrow> int \<Rightarrow> error + 'a" where
  "py_index xs i =
     (if 0 \<le> i \<and> i < int (length xs) then Inr (xs ! nat i)
      else if i < 0 \<and> - i \<le> int (length xs) then Inr (xs ! nat (int (length xs) + i))
      else Inl IndexError)"

subsection \<open>The signal evaluator (\<^verbatim>\<open>signals.py\<close>)\<close>

datatype TradebotAction = BUY | HOLD | SELL

text \<open>
  The value of the enumeration member, as \<^verbatim>\<open>TradebotAction\<close> declares it.
\<close>

fun action_value :: "TradebotAction \<Rightarrow> int" where
  "action_value BUY = 1"
| "action_value HOLD = 0"
| "action_value SELL = - 1"

text \<open>
  The two chained comparisons of \<^verbatim>\<open>macd_signal\<close>. Python evaluates a chain from the
  left and stops at the first comparison that is false, so an element is only read once
  every comparison before it has held.

  \<^verbatim>\<open>macd_hist[-1] > 0 and macd_hist[-1] >= macd_hist[-2] >= macd_hist[-3]\<close>
\<close>

definition momentum_building :: "real list \<Rightarrow> error + bool" where
  "momentum_building macd_hist =
     bnd (py_index macd_hist (- 1)) (\<lambda>h1.
       if \<not> h1 > 0 then Inr False
       else bnd (py_index macd_hist (- 1)) (\<lambda>a.
            bnd (py_index macd_hist (- 2)) (\<lambda>b.
              if \<not> a \<ge> b then Inr False
              else bnd (py_index macd_hist (- 3)) (\<lambda>c. Inr (b \<ge> c)))))"

text \<open>
  \<^verbatim>\<open>0 < macd_hist[-1] <= macd_hist[-2] <= macd_hist[-3] <= macd_hist[-4]\<close>
\<close>

definition momentum_decreasing :: "real list \<Rightarrow> error + bool" where
  "momentum_decreasing macd_hist =
     bnd (py_index macd_hist (- 1)) (\<lambda>a.
       if \<not> 0 < a then Inr False
       else bnd (py_index macd_hist (- 2)) (\<lambda>b.
         if \<not> a \<le> b then Inr False
         else bnd (py_index macd_hist (- 3)) (\<lambda>c.
           if \<not> b \<le> c then Inr False
           else bnd (py_index macd_hist (- 4)) (\<lambda>d. Inr (c \<le> d)))))"

text \<open>
  The \<^verbatim>\<open>if\<close>/\<^verbatim>\<open>elif\<close>/\<^verbatim>\<open>else\<close> chain of \<^verbatim>\<open>macd_signal\<close> on the histogram
  \<^verbatim>\<open>macd_hist\<close> (the list of \<^verbatim>\<open>macd_line - macd_signal\<close>, oldest value first).
\<close>

definition macd_hist_action :: "real list \<Rightarrow> error + TradebotAction" where
  "macd_hist_action macd_hist =
     bnd (momentum_building macd_hist) (\<lambda>building.
       if building then Inr BUY
       else bnd (momentum_decreasing macd_hist) (\<lambda>decreasing.
         if decreasing then Inr SELL
         else bnd (py_index macd_hist (- 1)) (\<lambda>h1.
           if h1 > 0 then Inr HOLD else Inr SELL)))"

text \<open>
  The rules of the signal evaluator as the specification words them, on the four latest
  values of the histogram: \<open>h1\<close> is the latest value, \<open>h4\<close> the fourth from the end.
\<close>

definition spec_macd_rules :: "real \<Rightarrow> real \<Rightarrow> real \<Rightarrow> real \<Rightarrow> TradebotAction" where
  "spec_macd_rules h4 h3 h2 h1 =
     (if h1 > 0 \<and> h3 \<le> h2 \<and> h2 \<le> h1 then BUY
      else if h1 > 0 \<and> h4 \<ge> h3 \<and> h3 \<ge> h2 \<and> h2 \<ge> h1 then SELL
      else if h1 > 0 then HOLD
      else SELL)"

subsection \<open>The tables of \<^verbatim>\<open>coinbot/__init__.py\<close>\<close>

text \<open>Bar widths and lookback spans in seconds, keyed by their names.\<close>

definition TIME_RESOLUTIONS :: "(string \<times> int) list" where
  "TIME_RESOLUTIONS =
     [(''1m'', 60), (''5m'', 5 * 60), (''15m'', 15 * 60), (''30m'', 30 * 60),
      (''1h'', 60 * 60), (''2h'', 2 * 60 * 60), (''4h'', 4 * 60 * 60),
      (''6h'', 6 * 60 * 60), (''8h'', 8 * 60 * 60), (''12h'', 12 * 60 * 60),
      (''1d'', 24 * 60 * 60)]"

definition TIME_SPANS :: "(string \<times> int) list" where
  "TIME_SPANS =
     [(''1h'', 60 * 60), (''2h'', 2 * 60 * 60), (''4h'', 4 * 60 * 60),
      (''8h'', 8 * 60 * 60), (''12h'', 12 * 60 * 60), (''1d'', 24 * 60 * 60),
      (''1w'', 7 * 24 * 60 * 60), (''2w'', 14 * 24 * 60 * 60),
      (''1m'', 30 * 24 * 60 * 60), (''2m'', 61 * 24 * 60 * 60),
      (''4m'', 122 * 24 * 60 * 60), (''6m'', 183 * 24 * 60 * 60),
      (''1y'', 365 * 24 * 60 * 60), (''2y'', 2 * 365 * 24 * 60 * 60),
      (''5y'', 5 * 365 * 24 * 60 * 60)]"

subsection \<open>The candle container (\<^verbatim>\<open>candles.py\<close>)\<close>

text \<open>
  \<^verbatim>\<open>np.max\<close> and \<^verbatim>\<open>np.min\<close> of a list; the constructor only calls them on a list
  that is not empty.
\<close>

fun np_max :: "real list \<Rightarrow> real" where
  "np_max [] = 0"
| "np_max (x # xs) = fold max xs x"

fun np_min :: "real list \<Rightarrow> real" where
  "np_min [] = 0"
| "np_min (x # xs) = fold min xs x"

text \<open>
  The attributes of an \<^verbatim>\<open>OHLCVCandles\<close> object. \<open>timelabels\<close> holds the bar times in
  seconds since the epoch (their rendering as calendar dates is not modelled). The four
  rounded renderings of the time span and the cached data frame are left out: they are
  functions of the attributes below.
\<close>

record OHLCVCandles =
  symbol :: string
  timestamps :: "real list"
  time_resolution :: string
  opening_positions :: "real list"
  high_positions :: "real list"
  low_positions :: "real list"
  close_positions :: "real list"
  volumes :: "real list"
  order :: string
  num_candles :: nat
  timelabels :: "real list"
  timespan :: real

text \<open>
  \<^verbatim>\<open>OHLCVCandles.__init__\<close>, in the order of its statements: the time span (a lookup
  of the resolution in \<^verbatim>\<open>TIME_RESOLUTIONS\<close>, which raises \<^verbatim>\<open>KeyError\<close> for an
  unknown name, and only when there is a bar), the two assertions on the lengths, the
  check of \<open>order\<close>, and the reversal of every sequence when the order given is
  \<^verbatim>\<open>"newer-to-older"\<close>.
\<close>

definition OHLCVCandles_init ::
  "string \<Rightarrow> real list \<Rightarrow> string \<Rightarrow> real list \<Rightarrow> real list \<Rightarrow> real list \<Rightarrow> real list
     \<Rightarrow> real list \<Rightarrow> string \<Rightarrow> error + OHLCVCandles" where
  "OHLCVCandles_init smb ts res opens highs lows closes vols ord =
     bnd (if length ts > 0
          then (case map_of TIME_RESOLUTIONS res of
                  None \<Rightarrow> Inl KeyError
                | Some width \<Rightarrow> Inr ((np_max ts - np_min ts) / 1000 + real_of_int width))
          else Inr 0)
       (\<lambda>span.
          if \<not> (length ts = length opens \<and> length opens = length closes
                \<and> length closes = length highs) then Inl AssertionError
          else if \<not> (length ts = length lows \<and> length lows = length vols)
          then Inl AssertionError
          else if ord \<notin> set [''older-to-newer'', ''newer-to-older'']
          then Inl CoinbotUnexpectedValueError
          else
            (let turn = (if ord = ''newer-to-older'' then rev else (\<lambda>xs. xs)) in
             Inr \<lparr> symbol = smb, timestamps = turn ts, time_resolution = res,
                   opening_positions = turn opens, high_positions = turn highs,
                   low_positions = turn lows, close_positions = turn closes,
                   volumes = turn vols, order = ord, num_candles = length ts,
                   timelabels = turn (map (\<lambda>t. t / 1000) ts), timespan = span \<rparr>))"

subsection \<open>The exchange behind the client\<close>

text \<open>
  The requests of the \<^verbatim>\<open>python_bitvavo_api\<close> library that the modelled methods send:
  the market list, the server time, the balance, a price ticker and a 24h ticker for one
  market, the bars of a market at a resolution between two times, and a market order
  (market, side \<^verbatim>\<open>'buy'\<close> or \<^verbatim>\<open>'sell'\<close>, amount).
\<close>

datatype api_call =
    Call_markets
  | Call_time
  | Call_balance
  | Call_tickerPrice string
  | Call_ticker24h string
  | Call_candles string string int int
  | Call_placeOrder string string real

record balance_entry =
  b_symbol :: string
  b_available :: real
  b_inOrder :: real

text \<open>A 24h ticker; the exchange sends \<^verbatim>\<open>None\<close> for a value it does not have.\<close>

record ticker_24h =
  t_open :: "real option"
  t_last :: "real option"
  t_volumeQuote :: "real option"

text \<open>One bar of a response: time, open, high, low, close, volume.\<close>

type_synonym candle = "real \<times> real \<times> real \<times> real \<times> real \<times> real"

text \<open>
  The answer to an order: a dictionary with an \<^verbatim>\<open>"error"\<close> entry, or the details of
  the fill, of which the amount filled and the amount of quote currency filled are used.
\<close>

datatype order_response = Order_error string | Order_filled real real

text \<open>
  The exchange is an opaque collaborator. It is modelled as deterministic in the
  requests it has received: each field gives the answer to a request from the list of
  requests sent before it (oldest first). \<open>getRemainingLimit\<close> is the call quota the
  library reports after those requests; reading it sends no request.
\<close>

record Bitvavo =
  getRemainingLimit :: "api_call list \<Rightarrow> int"
  markets :: "api_call list \<Rightarrow> string list"
  time :: "api_call list \<Rightarrow> int"
  balance :: "api_call list \<Rightarrow> balance_entry list"
  tickerPrice :: "api_call list \<Rightarrow> string \<Rightarrow> real"
  ticker24h :: "api_call list \<Rightarrow> string \<Rightarrow> ticker_24h"
  candles :: "api_call list \<Rightarrow> string \<Rightarrow> string \<Rightarrow> int \<Rightarrow> int \<Rightarrow> candle list"
  placeOrder :: "api_call list \<Rightarrow> string \<Rightarrow> string \<Rightarrow> real \<Rightarrow> order_response"

subsection \<open>The client (\<^verbatim>\<open>clients.py\<close>)\<close>

text \<open>
  A \<^verbatim>\<open>BitvavoClient\<close>: the exchange handle, the symbols cached by the constructor, and
  (for the proofs) the requests sent so far.
\<close>

record BitvavoClient =
  bitvavo :: Bitvavo
  calls :: "api_call list"
  available_symbols :: "string list"

text \<open>
  A method runs on a client and either returns a value or raises; the requests it sent
  before raising stay sent.
\<close>

type_synonym 'a action = "BitvavoClient \<Rightarrow> (error + 'a) \<times> BitvavoClient"

definition ret :: "'a \<Rightarrow> 'a action" where
  "ret x c = (Inr x, c)"

definition raise :: "error \<Rightarrow> 'a action" where
  "raise e c = (Inl e, c)"

definition seq :: "'a action \<Rightarrow> ('a \<Rightarrow> 'b action) \<Rightarrow> 'b action" where
  "seq m f c = (case m c of (Inl e, c') \<Rightarrow> (Inl e, c') | (Inr x, c') \<Rightarrow> f x c')"

text \<open>Sending a request: it joins the requests sent, and the exchange answers.\<close>

definition api :: "api_call \<Rightarrow> (Bitvavo \<Rightarrow> api_call list \<Rightarrow> 'a) \<Rightarrow> 'a action" where
  "api request answer c =
     (Inr (answer (bitvavo c) (calls c)), c\<lparr>calls := calls c @ [request]\<rparr>)"

text \<open>A \<^verbatim>\<open>for\<close> loop whose body returns nothing; an error in the body ends the loop.\<close>

primrec for_each :: "'a list \<Rightarrow> ('a \<Rightarrow> unit action) \<Rightarrow> unit action" where
  "for_each [] body = ret ()"
| "for_each (x # xs) body = seq (body x) (\<lambda>_. for_each xs body)"

text \<open>A \<^verbatim>\<open>for\<close> loop that updates a local variable.\<close>

primrec for_acc :: "'a list \<Rightarrow> 's \<Rightarrow> ('a \<Rightarrow> 's \<Rightarrow> 's action) \<Rightarrow> 's action" where
  "for_acc [] acc body = ret acc"
| "for_acc (x # xs) acc body = seq (body x acc) (\<lambda>acc'. for_acc xs acc' body)"

definition get_remaining_limit :: "BitvavoClient \<Rightarrow> int" where
  "get_remaining_limit c = getRemainingLimit (bitvavo c) (calls c)"

text \<open>
  The decorator \<^verbatim>\<open>limit_api_calls\<close>: the wrapper reads the remaining limit of the client
  (\<^verbatim>\<open>args[0]\<close>) and raises when it is below 100; otherwise it runs the method.
\<close>

definition limit_api_calls :: "'a action \<Rightarrow> 'a action" where
  "limit_api_calls func c =
     (if get_remaining_limit c < 100 then raise CoinbotExceededNumAPICallsError c
      else func c)"

text \<open>\<^verbatim>\<open>str.lower\<close> and \<^verbatim>\<open>str.upper\<close> on ASCII letters.\<close>

definition lower_char :: "char \<Rightarrow> char" where
  "lower_char ch =
     (case map_of (zip ''ABCDEFGHIJKLMNOPQRSTUVWXYZ'' ''abcdefghijklmnopqrstuvwxyz'') ch of
        Some small \<Rightarrow> small
      | None \<Rightarrow> ch)"

definition upper_char :: "char \<Rightarrow> char" where
  "upper_char ch =
     (case map_of (zip ''abcdefghijklmnopqrstuvwxyz'' ''ABCDEFGHIJKLMNOPQRSTUVWXYZ'') ch of
        Some capital \<Rightarrow> capital
      | None \<Rightarrow> ch)"

definition lower :: "string \<Rightarrow> string" where
  "lower s = map lower_char s"

definition upper :: "string \<Rightarrow> string" where
  "upper s = map upper_char s"

definition buy :: "string \<Rightarrow> real \<Rightarrow> order_response action" where
  "buy smb amount_in_euro =
     limit_api_calls
       (api (Call_placeOrder (smb @ ''-EUR'') ''buy'' amount_in_euro)
          (\<lambda>b h. placeOrder b h (smb @ ''-EUR'') ''buy'' amount_in_euro))"

definition sell :: "string \<Rightarrow> real \<Rightarrow> order_response action" where
  "sell smb amount_in_coins =
     limit_api_calls
       (api (Call_placeOrder (smb @ ''-EUR'') ''sell'' amount_in_coins)
          (\<lambda>b h. placeOrder b h (smb @ ''-EUR'') ''sell'' amount_in_coins))"

text \<open>
  \<^verbatim>\<open>get_available_symbols\<close>: the part of each market name before the first hyphen,
  and \<^verbatim>\<open>"EUR"\<close>; duplicates removed, sorted.
\<close>

definition get_available_symbols :: "string list action" where
  "get_available_symbols =
     limit_api_calls
       (seq (api Call_markets markets)
          (\<lambda>ms. ret (sort (remdups (map (takeWhile (\<lambda>ch. ch \<noteq> CHR ''-'')) ms @ [''EUR''])))))"

text \<open>
  The constructor, on an exchange that has received the requests \<open>h\<close>: it stores the
  handle and caches the available symbols.
\<close>

definition BitvavoClient_init :: "Bitvavo \<Rightarrow> api_call list \<Rightarrow> (error + unit) \<times> BitvavoClient" where
  "BitvavoClient_init credentials h =
     (case get_available_symbols \<lparr>bitvavo = credentials, calls = h, available_symbols = []\<rparr> of
        (Inl e, c) \<Rightarrow> (Inl e, c)
      | (Inr syms, c) \<Rightarrow> (Inr (), c\<lparr>available_symbols := syms\<rparr>))"

definition get_owned_symbols :: "string list action" where
  "get_owned_symbols =
     limit_api_calls
       (seq (api Call_balance balance)
          (\<lambda>bs. ret (map b_symbol
                   (filter (\<lambda>b. b_symbol b \<noteq> ''EUR'' \<and> (b_available b > 0 \<or> b_inOrder b > 0))
                      bs))))"

definition get_symbol_price :: "string \<Rightarrow> real action" where
  "get_symbol_price smb =
     limit_api_calls (\<lambda>c.
       if smb \<notin> set (available_symbols c) then raise CoinbotUnexpectedValueError c
       else if smb = ''EUR'' then ret 1 c
       else api (Call_tickerPrice (upper smb @ ''-EUR''))
              (\<lambda>b h. tickerPrice b h (upper smb @ ''-EUR'')) c)"

definition get_symbol_owned_amount :: "string \<Rightarrow> real action" where
  "get_symbol_owned_amount smb =
     limit_api_calls (\<lambda>c.
       if smb \<notin> set (available_symbols c) then raise CoinbotUnexpectedValueError c
       else seq (api Call_balance balance)
              (\<lambda>bs. ret (case find (\<lambda>b. lower (b_symbol b) = lower smb) bs of
                            Some b \<Rightarrow> b_available b
                          | None \<Rightarrow> 0)) c)"

definition get_available_funds :: "real action" where
  "get_available_funds = limit_api_calls (get_symbol_owned_amount ''EUR'')"

text \<open>
  \<^verbatim>\<open>get_symbol_24h_percentual_change\<close>: a value of the ticker that is \<^verbatim>\<open>None\<close> makes
  \<^verbatim>\<open>float\<close> raise \<^verbatim>\<open>TypeError\<close>, which the method catches and answers with 0; an
  opening price of 0 makes the division raise.
\<close>

definition get_symbol_24h_percentual_change :: "string \<Rightarrow> real action" where
  "get_symbol_24h_percentual_change smb =
     limit_api_calls (\<lambda>c.
       if smb \<notin> set (available_symbols c) then raise CoinbotUnexpectedValueError c
       else if smb = ''EUR'' then ret 0 c
       else seq (api (Call_ticker24h (upper smb @ ''-EUR''))
                   (\<lambda>b h. ticker24h b h (upper smb @ ''-EUR'')))
              (\<lambda>ticker_24.
                 case t_open ticker_24 of
                   None \<Rightarrow> ret 0
                 | Some open_price \<Rightarrow>
                     (case t_last ticker_24 of
                        None \<Rightarrow> ret 0
                      | Some last_price \<Rightarrow>
                          if open_price = 0 then raise ZeroDivisionError
                          else ret ((last_price - open_price) / open_price * 100))) c)"

definition get_symbol_24h_volume :: "string \<Rightarrow> real action" where
  "get_symbol_24h_volume smb =
     limit_api_calls (\<lambda>c.
       if smb \<notin> set (available_symbols c) then raise CoinbotUnexpectedValueError c
       else if smb = ''EUR'' then ret 0 c
       else seq (api (Call_ticker24h (upper smb @ ''-EUR''))
                   (\<lambda>b h. ticker24h b h (upper smb @ ''-EUR'')))
              (\<lambda>ticker_24.
                 ret (case t_volumeQuote ticker_24 of Some v \<Rightarrow> v | None \<Rightarrow> 0)) c)"

text \<open>\<^verbatim>\<open>panic\<close>: a market sell order for the whole amount of every owned symbol.\<close>

definition panic :: "unit action" where
  "panic =
     limit_api_calls
       (seq get_owned_symbols
          (\<lambda>owned. for_each owned
             (\<lambda>owned_symbol.
                seq (get_symbol_owned_amount owned_symbol)
                  (\<lambda>amount_in_coins.
                     seq (sell owned_symbol amount_in_coins) (\<lambda>_. ret ())))))"

text \<open>
  Lifting a computation that sends no request into a method, and \<^verbatim>\<open>int(x)\<close> of a
  float, which cuts the fraction off (towards zero).
\<close>

definition lift :: "error + 'a \<Rightarrow> 'a action" where
  "lift r c = (r, c)"

definition py_int :: "real \<Rightarrow> int" where
  "py_int x = (if 0 \<le> x then \<lfloor>x\<rfloor> else \<lceil>x\<rceil>)"

fun c_time :: "candle \<Rightarrow> real" where "c_time (t, op, hi, lo, cl, vol) = t"
fun c_open :: "candle \<Rightarrow> real" where "c_open (t, op, hi, lo, cl, vol) = op"
fun c_high :: "candle \<Rightarrow> real" where "c_high (t, op, hi, lo, cl, vol) = hi"
fun c_low :: "candle \<Rightarrow> real" where "c_low (t, op, hi, lo, cl, vol) = lo"
fun c_close :: "candle \<Rightarrow> real" where "c_close (t, op, hi, lo, cl, vol) = cl"
fun c_volume :: "candle \<Rightarrow> real" where "c_volume (t, op, hi, lo, cl, vol) = vol"

text \<open>
  One pass of the request loop of \<^verbatim>\<open>get_candles\<close>: the window of request
  \<open>request_nr\<close> ends \<open>request_nr\<close> slices before \<open>begin_timestamp\<close> and starts one slice
  earlier. The source extends six lists by the six columns of the answer; here the
  answers' rows are appended to one list and the columns are taken at the end.
\<close>

definition request_candles ::
  "string \<Rightarrow> string \<Rightarrow> int \<Rightarrow> int \<Rightarrow> nat \<Rightarrow> candle list \<Rightarrow> candle list action" where
  "request_candles smb resolution begin_timestamp time_span_per_request request_nr rows =
     (let start_timestamp = begin_timestamp - (int request_nr + 1) * time_span_per_request;
          end_timestamp = begin_timestamp - int request_nr * time_span_per_request
      in seq (api (Call_candles (smb @ ''-EUR'') resolution start_timestamp end_timestamp)
                (\<lambda>b h. candles b h (smb @ ''-EUR'') resolution start_timestamp
                          end_timestamp))
           (\<lambda>answer. ret (rows @ answer)))"

text \<open>
  \<^verbatim>\<open>get_candles\<close>: the three checks of the input, the number of bars and of requests
  (\<^verbatim>\<open>math.ceil\<close> of a float division), the window from the server time back over the
  span, the requests, and the construction of the series with
  \<^verbatim>\<open>order="newer-to-older"\<close>.
\<close>

definition get_candles :: "string \<Rightarrow> string \<Rightarrow> string \<Rightarrow> OHLCVCandles action" where
  "get_candles smb resolution span_name =
     limit_api_calls (\<lambda>c.
       case map_of TIME_RESOLUTIONS resolution of
         None \<Rightarrow> raise CoinbotUnexpectedValueError c
       | Some width \<Rightarrow>
           (case map_of TIME_SPANS span_name of
              None \<Rightarrow> raise CoinbotUnexpectedValueError c
            | Some span_seconds \<Rightarrow>
                if smb \<notin> set (available_symbols c) then raise CoinbotUnexpectedValueError c
                else
                  seq (api Call_time time)
                    (\<lambda>begin_timestamp.
                       let candles_needed = \<lceil>real_of_int span_seconds / real_of_int width\<rceil>;
                           end_timestamp =
                             py_int (real_of_int begin_timestamp / 1000 - real_of_int span_seconds) * 1000;
                           num_requests = \<lceil>real_of_int candles_needed / 1000\<rceil>;
                           total_time_span = begin_timestamp - end_timestamp
                       in if num_requests = 0 then raise ZeroDivisionError
                          else
                            seq (for_acc [0..<nat num_requests] []
                                   (request_candles smb resolution begin_timestamp
                                      (total_time_span div num_requests)))
                              (\<lambda>rows.
                                 lift (OHLCVCandles_init smb (map c_time rows) resolution
                                         (map c_open rows) (map c_high rows) (map c_low rows)
                                         (map c_close rows) (map c_volume rows)
                                         ''newer-to-older''))) c))"

subsection \<open>The MACD indicator (\<^verbatim>\<open>indicators.py\<close>)\<close>

text \<open>
  The columns that \<^verbatim>\<open>macd_indicator\<close> adds to a data frame, and a data frame: the six
  columns of \<^verbatim>\<open>as_dataframe\<close>, with or without the MACD columns.
\<close>

record macd_columns =
  ema_fast :: "real list"
  ema_slow :: "real list"
  macd_line :: "real list"
  macd_signal_line :: "real list"

record DataFrame =
  col_timestamp :: "real list"
  col_open :: "real list"
  col_high :: "real list"
  col_low :: "real list"
  col_close :: "real list"
  col_volume :: "real list"
  col_macd :: "macd_columns option"

definition as_dataframe :: "OHLCVCandles \<Rightarrow> DataFrame" where
  "as_dataframe cs =
     \<lparr> col_timestamp = timestamps cs, col_open = opening_positions cs,
       col_high = high_positions cs, col_low = low_positions cs,
       col_close = close_positions cs, col_volume = volumes cs, col_macd = None \<rparr>"

text \<open>
  \<^verbatim>\<open>Series.ewm(span=s).mean()\<close> of pandas with its defaults: the value at a position
  is the mean of the values up to it, the value \<open>i\<close> places back weighted by
  \<open>(1 - \<alpha>) ^ i\<close> with \<open>\<alpha> = 2 / (s + 1)\<close>. \<open>ewm_from\<close> carries the weighted sum and the
  sum of the weights. pandas refuses a span below 1.
\<close>

primrec ewm_from :: "real \<Rightarrow> real \<Rightarrow> real \<Rightarrow> real list \<Rightarrow> real list" where
  "ewm_from decay weighted weights [] = []"
| "ewm_from decay weighted weights (x # xs) =
     (x + decay * weighted) / (1 + decay * weights)
       # ewm_from decay (x + decay * weighted) (1 + decay * weights) xs"

definition ewm_mean :: "int \<Rightarrow> real list \<Rightarrow> error + real list" where
  "ewm_mean periods xs =
     (if periods < 1 then Inl ValueError
      else Inr (ewm_from (1 - 2 / (real_of_int periods + 1)) 0 0 xs))"

text \<open>
  The argument of \<^verbatim>\<open>macd_indicator\<close> and \<^verbatim>\<open>macd_signal\<close> is a candle series or a
  data frame.
\<close>

datatype macd_input = From_candles OHLCVCandles | From_frame DataFrame

definition macd_indicator :: "macd_input \<Rightarrow> int \<Rightarrow> int \<Rightarrow> int \<Rightarrow> error + DataFrame" where
  "macd_indicator inp short_period long_period signal_period =
     (let closing_positions =
            (case inp of From_candles cs \<Rightarrow> close_positions cs | From_frame df \<Rightarrow> col_close df)
      in bnd (ewm_mean short_period closing_positions) (\<lambda>fast.
         bnd (ewm_mean long_period closing_positions) (\<lambda>slow.
           let line = map2 (-) fast slow in
           bnd (ewm_mean signal_period line) (\<lambda>signal.
             let df = (case inp of From_candles cs \<Rightarrow> as_dataframe cs | From_frame df \<Rightarrow> df)
             in Inr (df\<lparr>col_macd := Some \<lparr> ema_fast = fast, ema_slow = slow,
                                          macd_line = line, macd_signal_line = signal \<rparr>\<rparr>)))))"

text \<open>
  \<^verbatim>\<open>macd_signal\<close>: a data frame that has the MACD columns is used as it is, anything
  else goes through \<^verbatim>\<open>macd_indicator\<close> with the keyword arguments (the three periods);
  the histogram is the MACD line minus its signal line.
\<close>

definition macd_signal :: "macd_input \<Rightarrow> int \<times> int \<times> int \<Rightarrow> error + TradebotAction" where
  "macd_signal inp kwargs =
     bnd (case inp of
            From_frame df \<Rightarrow>
              (case col_macd df of
                 Some _ \<Rightarrow> Inr df
               | None \<Rightarrow> (case kwargs of (p_short, p_long, p_signal) \<Rightarrow>
                            macd_indicator inp p_short p_long p_signal))
          | From_candles _ \<Rightarrow>
              (case kwargs of (p_short, p_long, p_signal) \<Rightarrow>
                 macd_indicator inp p_short p_long p_signal))
       (\<lambda>macd_df.
          case col_macd macd_df of
            None \<Rightarrow> Inl KeyError
          | Some cols \<Rightarrow>
              macd_hist_action (map2 (-) (macd_line cols) (macd_signal_line cols)))"

text \<open>The periods \<^verbatim>\<open>macd_indicator\<close> takes when none are given.\<close>

definition default_periods :: "int \<times> int \<times> int" where
  "default_periods = (12, 26, 9)"

subsection \<open>The trading loop (\<^verbatim>\<open>macd_bot.py\<close>)\<close>

text \<open>The entry that \<^verbatim>\<open>get_promising_symbols\<close> stores for a promising symbol.\<close>

record symbol_metrics =
  price_24h_growth :: real
  volume_24h :: real
  volume_24h_magnitude :: int
  macd_ind :: TradebotAction
  macd_val :: real

text \<open>
  \<^verbatim>\<open>math.floor(math.log(v, 10))\<close>; the logarithm raises \<^verbatim>\<open>ValueError\<close> unless \<open>v\<close> is
  positive.
\<close>

definition volume_magnitude :: "real \<Rightarrow> error + int" where
  "volume_magnitude v = (if v \<le> 0 then Inl ValueError else Inr \<lfloor>log 10 v\<rfloor>)"

text \<open>\<^verbatim>\<open>series.tail(1).item()\<close>: the last value; \<^verbatim>\<open>ValueError\<close> on an empty series.\<close>

definition tail_item :: "real list \<Rightarrow> error + real" where
  "tail_item xs = (if xs = [] then Inl ValueError else Inr (last xs))"

text \<open>
  The body of the loop of \<^verbatim>\<open>get_promising_symbols\<close> for one symbol; every
  \<^verbatim>\<open>continue\<close> leaves the dictionary \<open>interesting_symbols\<close> as it is. The dictionary is
  a list of entries in the order of insertion.
\<close>

definition examine_symbol ::
  "real \<Rightarrow> string \<times> int \<times> int \<times> int \<Rightarrow> string \<Rightarrow> (string \<times> symbol_metrics) list
     \<Rightarrow> (string \<times> symbol_metrics) list action" where
  "examine_symbol volume_limit macd_params smb interesting_symbols =
     (case macd_params of (resolution, p_short, p_long, p_signal) \<Rightarrow>
      seq (get_symbol_24h_percentual_change smb) (\<lambda>growth.
        if growth \<le> 0 then ret interesting_symbols
        else
          seq (get_symbol_24h_volume smb) (\<lambda>volume_24_h.
            if volume_24_h < volume_limit then ret interesting_symbols
            else
              seq (get_candles smb resolution ''1m'') (\<lambda>cs.
                if length (timestamps cs) \<noteq> 90 then ret interesting_symbols
                else
                  seq (lift (macd_indicator (From_candles cs) p_short p_long p_signal))
                    (\<lambda>macd_candles.
                  seq (lift (macd_signal (From_frame macd_candles) default_periods))
                    (\<lambda>ind.
                  seq (lift (case col_macd macd_candles of
                               None \<Rightarrow> Inl KeyError
                             | Some cols \<Rightarrow>
                                 tail_item (map2 (-) (macd_line cols) (macd_signal_line cols))))
                    (\<lambda>macd_strength.
                  if ind \<noteq> BUY then ret interesting_symbols
                  else
                    seq (lift (volume_magnitude volume_24_h)) (\<lambda>magnitude.
                      ret (AList.update smb
                             \<lparr> price_24h_growth = growth, volume_24h = volume_24_h,
                               volume_24h_magnitude = magnitude, macd_ind = ind,
                               macd_val = macd_strength \<rparr>
                             interesting_symbols)))))))))"

definition get_promising_symbols ::
  "real \<Rightarrow> string \<times> int \<times> int \<times> int \<Rightarrow> (string \<times> symbol_metrics) list action" where
  "get_promising_symbols volume_limit macd_params =
     seq get_available_symbols
       (\<lambda>symbols. for_acc symbols [] (examine_symbol volume_limit macd_params))"

text \<open>
  A slice \<^verbatim>\<open>xs[:n]\<close>: the first \<open>n\<close> elements, and for a negative \<open>n\<close> all but the
  last \<open>- n\<close>.
\<close>

definition py_slice_to :: "int \<Rightarrow> 'a list \<Rightarrow> 'a list" where
  "py_slice_to n xs =
     (if 0 \<le> n then take (nat n) xs else take (nat (int (length xs) + n)) xs)"

text \<open>
  \<^verbatim>\<open>select_best_symbols\<close>: the tuples (symbol, magnitude, growth, magnitude) of the
  entries, sorted by (magnitude, growth) with a stable sort, reversed, cut to the first
  \<open>num_symbols_to_select\<close>; the symbols of what is left.
\<close>

definition select_best_symbols :: "(string \<times> symbol_metrics) list \<Rightarrow> int \<Rightarrow> string list" where
  "select_best_symbols interesting_symbols num_symbols_to_select =
     (let ranked = map (\<lambda>(s, m). (s, volume_24h_magnitude m, price_24h_growth m,
                               volume_24h_magnitude m)) interesting_symbols;
          ranked = sort_key (\<lambda>(s, magnitude, growth, m). (magnitude, growth)) ranked;
          ranked = rev ranked;
          ranked = py_slice_to num_symbols_to_select ranked
      in map fst ranked)"

text \<open>
  What \<^verbatim>\<open>live_buy\<close> and \<^verbatim>\<open>live_sell\<close> do with the answer to an order: an answer
  with an error gives \<^verbatim>\<open>False\<close>; otherwise the log line divides the quote amount by
  the amount filled, which raises when nothing was filled, and the result is \<^verbatim>\<open>True\<close>.
\<close>

definition order_outcome :: "order_response \<Rightarrow> bool action" where
  "order_outcome response =
     (case response of
        Order_error _ \<Rightarrow> ret False
      | Order_filled filled_amount filled_quote \<Rightarrow>
          if filled_amount = 0 then raise ZeroDivisionError else ret True)"


definition live_sell :: "string \<Rightarrow> bool action" where
  "live_sell smb =
     seq (get_symbol_owned_amount smb)
       (\<lambda>amount_in_coins. seq (sell smb amount_in_coins) order_outcome)"


text \<open>
  The machine the bot runs on, as far as the review of the positions needs it: the local
  time as \<^verbatim>\<open>strftime('%Y-%m-%d %H:%M')\<close> renders it, and what \<^verbatim>\<open>plt.savefig\<close> does
  with a path (it raises when the file cannot be written, as when the directory is
  missing). Like the answers of the exchange, both are functions of the requests sent so
  far.
\<close>

record Host =
  local_time :: "api_call list \<Rightarrow> string"
  savefig :: "api_call list \<Rightarrow> string \<Rightarrow> error + unit"

text \<open>
  \<^verbatim>\<open>plot_macd_analysis\<close> of \<^verbatim>\<open>frontend/plots.py\<close>. The calls that draw are taken to
  succeed. What is left are the MACD columns read off the frame, the spacing of the tick
  labels \<^verbatim>\<open>candles.num_candles // 20\<close>, which is the divisor of \<^verbatim>\<open>i % mod\<close> for every
  time label (\<^verbatim>\<open>ZeroDivisionError\<close> for a series of 1 to 19 bars), and the saving of
  the figure when a path is given.
\<close>

definition plot_macd_analysis ::
  "(string \<Rightarrow> error + unit) \<Rightarrow> OHLCVCandles \<Rightarrow> DataFrame \<Rightarrow> string option \<Rightarrow> error + unit" where
  "plot_macd_analysis plt_savefig cs macd_candles save_path =
     (case col_macd macd_candles of
        None \<Rightarrow> Inl KeyError
      | Some cols \<Rightarrow>
          (let label_step = num_candles cs div 20 in
           if timelabels cs \<noteq> [] \<and> label_step = 0 then Inl ZeroDivisionError
           else (case save_path of None \<Rightarrow> Inr () | Some path \<Rightarrow> plt_savefig path)))"

text \<open>
  The directory of the plots and \<^verbatim>\<open>str(macd_ind).split(".")[-1]\<close>, the name of an
  action.
\<close>

definition save_dir :: string where
  "save_dir = ''/Users/jeremylombaerts/Library/Mobile Documents/com~apple~CloudDocs/Python/Coinbot/data/live logs''"

fun action_name :: "TradebotAction \<Rightarrow> string" where
  "action_name BUY = ''BUY''"
| "action_name HOLD = ''HOLD''"
| "action_name SELL = ''SELL''"

text \<open>
  \<^verbatim>\<open>analyse_existing_positions\<close>; \<open>review_position\<close> is one pass of its loop: the bars,
  the indicator, the signal, the sale when the signal is SELL, and the plot of the
  analysis saved under the symbol, the local time and the action. The log lines read the
  last row of the frame, which exists once the signal has been computed.
\<close>

definition review_position ::
  "Host \<Rightarrow> string \<times> int \<times> int \<times> int \<Rightarrow> string \<Rightarrow> unit action" where
  "review_position host macd_params os =
     (case macd_params of (resolution, p_short, p_long, p_signal) \<Rightarrow>
      seq (get_candles os resolution ''1m'') (\<lambda>cs.
      seq (lift (macd_indicator (From_candles cs) p_short p_long p_signal)) (\<lambda>macd_candles.
      seq (lift (macd_signal (From_frame macd_candles) default_periods)) (\<lambda>ind.
      seq (if ind = SELL then seq (live_sell os) (\<lambda>_. ret ()) else ret ()) (\<lambda>_.
        (\<lambda>c. (plot_macd_analysis (savefig host (calls c)) cs macd_candles
                 (Some (save_dir @ ''/'' @ os @ '' '' @ local_time host (calls c) @ '' ''
                          @ action_name ind @ ''.png'')),
               c)))))))"

definition analyse_existing_positions ::
  "Host \<Rightarrow> string \<times> int \<times> int \<times> int \<Rightarrow> unit action" where
  "analyse_existing_positions host macd_params =
     seq get_owned_symbols (\<lambda>owned. for_each owned (review_position host macd_params))"

subsection \<open>Test doubles for the exchange\<close>

text \<open>
  An exchange with two markets and no balance that fills every order at once; its
  remaining call quota is given as a function of the requests received.
\<close>

definition quota_stub :: "(api_call list \<Rightarrow> int) \<Rightarrow> Bitvavo" where
  "quota_stub quota =
     \<lparr> getRemainingLimit = quota,
       markets = (\<lambda>h. [''BTC-EUR'', ''ETH-EUR'']),
       time = (\<lambda>h. 1700000000000),
       balance = (\<lambda>h. []),
       tickerPrice = (\<lambda>h market. 20000),
       ticker24h = (\<lambda>h market. \<lparr>t_open = None, t_last = None, t_volumeQuote = None\<rparr>),
       candles = (\<lambda>h market resolution start_time end_time. []),
       placeOrder = (\<lambda>h market side amount. Order_filled 1 amount) \<rparr>"

subsection \<open>The ranking of the specification\<close>

text \<open>
  The order in which the specification ranks two promising symbols: the one with the
  higher order of magnitude of the 24h volume ranks above the other whatever the growth,
  and at equal magnitude the one with the higher 24h growth.
\<close>

definition ranks_at_least :: "symbol_metrics \<Rightarrow> symbol_metrics \<Rightarrow> bool" where
  "ranks_at_least a b =
     (volume_24h_magnitude a > volume_24h_magnitude b \<or>
      (volume_24h_magnitude a = volume_24h_magnitude b \<and>
       price_24h_growth a \<ge> price_24h_growth b))"

text \<open>The sort key of \<^verbatim>\<open>select_best_symbols\<close>, on an entry of the dictionary.\<close>

definition rank_key :: "string \<times> symbol_metrics \<Rightarrow> int \<times> real" where
  "rank_key e = (volume_24h_magnitude (snd e), price_24h_growth (snd e))"

text \<open>Four entries: magnitude 6 with growth 3, 7 and 20, and magnitude 7 with growth 1.\<close>

definition metrics_of :: "int \<Rightarrow> real \<Rightarrow> symbol_metrics" where
  "metrics_of magnitude growth =
     \<lparr> price_24h_growth = growth, volume_24h = 10 powr real_of_int magnitude,
       volume_24h_magnitude = magnitude, macd_ind = BUY, macd_val = 1 \<rparr>"

definition four_candidates :: "(string \<times> symbol_metrics) list" where
  "four_candidates =
     [(''ADA'', metrics_of 6 3), (''BTC'', metrics_of 6 7), (''ETH'', metrics_of 7 1),
      (''XRP'', metrics_of 6 20)]"

text \<open>
  An exchange whose answers do not depend on the requests received: its markets, its
  balance, its 24h tickers, its bars and its answers to orders are given; the quota
  stays at 1000.
\<close>

definition market_stub ::
  "string list \<Rightarrow> balance_entry list \<Rightarrow> (string \<Rightarrow> ticker_24h)
     \<Rightarrow> (string \<Rightarrow> string \<Rightarrow> int \<Rightarrow> int \<Rightarrow> candle list)
     \<Rightarrow> (string \<Rightarrow> string \<Rightarrow> real \<Rightarrow> order_response) \<Rightarrow> Bitvavo" where
  "market_stub the_markets the_balance tickers bars orders =
     \<lparr> getRemainingLimit = (\<lambda>h. 1000),
       markets = (\<lambda>h. the_markets),
       time = (\<lambda>h. 1700000000000),
       balance = (\<lambda>h. the_balance),
       tickerPrice = (\<lambda>h market. 1),
       ticker24h = (\<lambda>h. tickers),
       candles = (\<lambda>h. bars),
       placeOrder = (\<lambda>h. orders) \<rparr>"

text \<open>Bars at the two ends of the window asked for, the later one first.\<close>

definition window_edges :: "string \<Rightarrow> string \<Rightarrow> int \<Rightarrow> int \<Rightarrow> candle list" where
  "window_edges market resolution start_time end_time =
     (if start_time \<le> end_time
      then [(real_of_int end_time, 1, 1, 1, 1, 1), (real_of_int start_time, 1, 1, 1, 1, 1)]
      else [])"

definition no_ticker :: "string \<Rightarrow> ticker_24h" where
  "no_ticker market = \<lparr>t_open = None, t_last = None, t_volumeQuote = None\<rparr>"

definition reject_orders :: "string \<Rightarrow> string \<Rightarrow> real \<Rightarrow> order_response" where
  "reject_orders market side amount = Order_error ''insufficient balance''"

subsection \<open>What is assumed of the exchange's bars\<close>

text \<open>
  The exchange answers a request for bars with bars inside the window asked for, the
  newest first (as Bitvavo does, and as the \<^verbatim>\<open>order="newer-to-older"\<close> that
  \<^verbatim>\<open>get_candles\<close> passes to the constructor says of them).
\<close>

definition answers_newest_first :: "Bitvavo \<Rightarrow> bool" where
  "answers_newest_first b =
     (\<forall>h market resolution start_time end_time.
        sorted_wrt (\<lambda>x y. x \<ge> y)
          (map c_time (candles b h market resolution start_time end_time)) \<and>
        (\<forall>row \<in> set (candles b h market resolution start_time end_time).
           real_of_int start_time \<le> c_time row \<and> c_time row \<le> real_of_int end_time))"

text \<open>A client of an exchange with one market that answers with \<open>window_edges\<close>.\<close>

definition edge_client :: BitvavoClient where
  "edge_client =
     \<lparr> bitvavo = market_stub [''BTC-EUR''] [] no_ticker window_edges reject_orders,
       calls = [], available_symbols = [''BTC'', ''EUR''] \<rparr>"

subsection \<open>Reading the requests sent\<close>

text \<open>The markets of the sell orders among a list of requests, in the order sent.\<close>

fun sold_market :: "api_call \<Rightarrow> string list" where
  "sold_market (Call_placeOrder market side amount) = (if side = ''sell'' then [market] else [])"
| "sold_market _ = []"

definition sold_markets :: "api_call list \<Rightarrow> string list" where
  "sold_markets requests = concat (map sold_market requests)"

text \<open>The markets of the requests for bars among a list of requests.\<close>

fun candle_market :: "api_call \<Rightarrow> string list" where
  "candle_market (Call_candles market resolution start_time end_time) = [market]"
| "candle_market _ = []"

definition candle_markets :: "api_call list \<Rightarrow> string list" where
  "candle_markets requests = concat (map candle_market requests)"

text \<open>
  The symbols that \<^verbatim>\<open>get_owned_symbols\<close> reads off a balance: those other than \<^verbatim>\<open>"EUR"\<close>
  with an amount available or in order.
\<close>

definition owned_of :: "balance_entry list \<Rightarrow> string list" where
  "owned_of bs =
     map b_symbol
       (filter (\<lambda>b. b_symbol b \<noteq> ''EUR'' \<and> (b_available b > 0 \<or> b_inOrder b > 0)) bs)"

text \<open>The client after it has sent the requests \<open>new\<close>.\<close>

definition sent :: "BitvavoClient \<Rightarrow> api_call list \<Rightarrow> BitvavoClient" where
  "sent c new = c\<lparr>calls := calls c @ new\<rparr>"

subsection \<open>What is assumed of the exchange where no call is to raise\<close>

text \<open>The remaining call quota never falls below 100.\<close>

definition quota_kept :: "Bitvavo \<Rightarrow> bool" where
  "quota_kept b = (\<forall>h. 100 \<le> getRemainingLimit b h)"

text \<open>
  A request for the bars of a window that is at least twenty bars wide (the times are in
  milliseconds, the widths of the bars in seconds) is answered with at least twenty bars.
\<close>

definition bars_enough :: "Bitvavo \<Rightarrow> bool" where
  "bars_enough b = (\<forall>h market resolution width start_time end_time.
      map_of TIME_RESOLUTIONS resolution = Some width \<longrightarrow>
      20 * (width * 1000) \<le> end_time - start_time \<longrightarrow>
      20 \<le> length (candles b h market resolution start_time end_time))"

text \<open>Every figure is saved.\<close>

definition plots_saved :: "Host \<Rightarrow> bool" where
  "plots_saved host = (\<forall>h path. savefig host h path = Inr ())"

text \<open>No order is answered as filled with an amount of 0.\<close>

definition fills_not_empty :: "Bitvavo \<Rightarrow> bool" where
  "fills_not_empty b =
     (\<forall>h market side amount quote. placeOrder b h market side amount \<noteq> Order_filled 0 quote)"

text \<open>
  A machine on which every figure is saved, and one on which the directory of the plots
  is missing.
\<close>

definition saving_host :: Host where
  "saving_host = \<lparr> local_time = (\<lambda>h. ''2021-05-01 12:00''), savefig = (\<lambda>h path. Inr ()) \<rparr>"

definition bare_host :: Host where
  "bare_host =
     \<lparr> local_time = (\<lambda>h. ''2021-05-01 12:00''), savefig = (\<lambda>h path. Inl FileNotFoundError) \<rparr>"

text \<open>
  Four bars whatever the window, the newest first, and \<open>n\<close> bars that all close at 100,
  spread over the window asked for, the newest first.
\<close>

definition four_bars :: "string \<Rightarrow> string \<Rightarrow> int \<Rightarrow> int \<Rightarrow> candle list" where
  "four_bars market resolution start_time end_time =
     [(4000, 1, 1, 1, 1, 1), (3000, 1, 1, 1, 2, 1), (2000, 1, 1, 1, 3, 1),
      (1000, 1, 1, 1, 4, 1)]"

definition steady_bars :: "nat \<Rightarrow> string \<Rightarrow> string \<Rightarrow> int \<Rightarrow> int \<Rightarrow> candle list" where
  "steady_bars n market resolution start_time end_time =
     map (\<lambda>i. (real_of_int end_time - real_of_int (end_time - start_time) * real i / real n,
               100, 100, 100, 100, 1)) [0..<n]"

definition holding :: "string \<Rightarrow> real \<Rightarrow> balance_entry" where
  "holding smb amount = \<lparr>b_symbol = smb, b_available = amount, b_inOrder = 0\<rparr>"

text \<open>
  Three clients for the loops over the owned symbols. The first holds BTC and ETH on an
  exchange that rejects every order and answers every request for bars with 90 bars. The
  second is like the first, but the exchange has four bars only. The third holds AAA, for
  which the exchange has no market, and BTC.
\<close>

definition rejecting_client :: BitvavoClient where
  "rejecting_client =
     \<lparr> bitvavo = market_stub [''BTC-EUR'', ''ETH-EUR'']
                   [holding ''EUR'' 50, holding ''BTC'' 1, holding ''ETH'' 2]
                   no_ticker (steady_bars 90) reject_orders,
       calls = [], available_symbols = [''BTC'', ''ETH'', ''EUR''] \<rparr>"

definition short_client :: BitvavoClient where
  "short_client =
     \<lparr> bitvavo = market_stub [''BTC-EUR'', ''ETH-EUR'']
                   [holding ''EUR'' 50, holding ''BTC'' 1, holding ''ETH'' 2]
                   no_ticker four_bars reject_orders,
       calls = [], available_symbols = [''BTC'', ''ETH'', ''EUR''] \<rparr>"

text \<open>
  The series that \<^verbatim>\<open>get_candles\<close> makes of the four bars of \<open>four_bars\<close> at the
  resolution of eight hours: the oldest bar first.
\<close>

definition short_series :: OHLCVCandles where
  "short_series =
     \<lparr> symbol = ''BTC'', timestamps = [1000, 2000, 3000, 4000], time_resolution = ''8h'',
       opening_positions = [1, 1, 1, 1], high_positions = [1, 1, 1, 1],
       low_positions = [1, 1, 1, 1], close_positions = [4, 3, 2, 1],
       volumes = [1, 1, 1, 1], order = ''newer-to-older'', num_candles = 4,
       timelabels = [1, 2, 3, 4], timespan = 28803 \<rparr>"

definition stranded_client :: BitvavoClient where
  "stranded_client =
     \<lparr> bitvavo = market_stub [''BTC-EUR''] [holding ''AAA'' 5, holding ''BTC'' 1]
                   no_ticker four_bars reject_orders,
       calls = [], available_symbols = [''BTC'', ''EUR''] \<rparr>"

subsection \<open>The weights of the moving average\<close>

text \<open>The sum of the first \<open>m\<close> weights \<open>q ^ i\<close> of an exponentially weighted mean.\<close>

definition geo :: "real \<Rightarrow> nat \<Rightarrow> real" where
  "geo q m = (\<Sum>i<m. q ^ i)"

text \<open>The factor \<open>1 - \<alpha>\<close> of \<^verbatim>\<open>ewm(span=periods)\<close>.\<close>

definition decay :: "int \<Rightarrow> real" where
  "decay periods = 1 - 2 / (real_of_int periods + 1)"



subsection \<open>Test doubles for the scan of the symbols\<close>

text \<open>
  Bars inside the window asked for, newest first: the newest closes at 101, the \<open>n\<close>
  bars before it are flat at 100.
\<close>

definition flat_then_up :: "nat \<Rightarrow> string \<Rightarrow> string \<Rightarrow> int \<Rightarrow> int \<Rightarrow> candle list" where
  "flat_then_up n market resolution start_time end_time =
     (real_of_int end_time, 100, 101, 100, 101, 1)
       # map (\<lambda>i. (real_of_int end_time
                      - real_of_int (end_time - start_time) * real (Suc i) / real (Suc n),
                    100, 100, 100, 100, 1)) [0..<n]"

text \<open>A 24h ticker with an opening price, a last price and a quote volume.\<close>

definition ticker_of :: "real \<Rightarrow> real \<Rightarrow> real \<Rightarrow> ticker_24h" where
  "ticker_of opened latest quote_volume =
     \<lparr>t_open = Some opened, t_last = Some latest, t_volumeQuote = Some quote_volume\<rparr>"

text \<open>Every order is filled.\<close>

definition fill_orders :: "string \<Rightarrow> string \<Rightarrow> real \<Rightarrow> order_response" where
  "fill_orders market side amount = Order_filled 1 amount"



text \<open>
  A client of an exchange with one market, BTC, that has risen by 10 percent over the
  last 24 hours on a quote volume of 500000 and has 30 daily bars, flat and then up.
\<close>

definition daily_client :: BitvavoClient where
  "daily_client =
     \<lparr> bitvavo = market_stub [''BTC-EUR''] [holding ''EUR'' 1000]
                   (\<lambda>market. ticker_of 100 110 500000) (flat_then_up 29) fill_orders,
       calls = [], available_symbols = [''BTC'', ''EUR''] \<rparr>"

subsection \<open>Frames and bars for the signal evaluator\<close>

text \<open>
  A data frame of as many rows as \<open>line\<close> has values, with the MACD line \<open>line\<close> and
  the signal line \<open>signal\<close>; the other columns hold a constant.
\<close>

definition frame_with :: "real list \<Rightarrow> real list \<Rightarrow> DataFrame" where
  "frame_with line signal =
     \<lparr> col_timestamp = map (\<lambda>x. 0) line, col_open = map (\<lambda>x. 1) line,
       col_high = map (\<lambda>x. 1) line, col_low = map (\<lambda>x. 1) line,
       col_close = map (\<lambda>x. 1) line, col_volume = map (\<lambda>x. 1) line,
       col_macd = Some \<lparr> ema_fast = map (\<lambda>x. 1) line, ema_slow = map (\<lambda>x. 1) line,
                         macd_line = line, macd_signal_line = signal \<rparr> \<rparr>"

text \<open>
  Four bars that close at 1, 2, 4 and 8, and the frame that \<^verbatim>\<open>macd_indicator\<close> makes
  of them with the periods 1, 3 and 3: the histogram is 0, 1/9, 1/3, 7/9.
\<close>

definition doubling_bars :: OHLCVCandles where
  "doubling_bars =
     \<lparr> symbol = ''BTC'', timestamps = [1000, 2000, 3000, 4000], time_resolution = ''1m'',
       opening_positions = [1, 1, 2, 4], high_positions = [1, 2, 4, 8],
       low_positions = [1, 1, 2, 4], close_positions = [1, 2, 4, 8],
       volumes = [1, 1, 1, 1], order = ''older-to-newer'', num_candles = 4,
       timelabels = [1, 2, 3, 4], timespan = 63 \<rparr>"

definition doubling_frame :: DataFrame where
  "doubling_frame =
     (as_dataframe doubling_bars)
       \<lparr>col_macd := Some \<lparr> ema_fast = [1, 2, 4, 8], ema_slow = [1, 5 / 3, 3, 17 / 3],
                           macd_line = [0, 1 / 3, 1, 7 / 3],
                           macd_signal_line = [0, 2 / 9, 2 / 3, 14 / 9] \<rparr>\<rparr>"

section \<open>Properties\<close>

subsection \<open>Indexing from the end\<close>

lemma py_index_from_end:
  "k < length xs \<Longrightarrow> py_index xs (- 1 - int k) = Inr (xs ! (length xs - 1 - k))"
  by (auto simp: py_index_def nat_diff_distrib' intro: arg_cong [where f = "(!) xs"])

lemma py_index_beyond:
  "length xs \<le> k \<Longrightarrow> py_index xs (- 1 - int k) = Inl IndexError"
  by (simp add: py_index_def)

lemma py_index_last4:
  "py_index (pre @ [h4, h3, h2, h1]) (- 1) = Inr h1"
  "py_index (pre @ [h4, h3, h2, h1]) (- 2) = Inr h2"
  "py_index (pre @ [h4, h3, h2, h1]) (- 3) = Inr h3"
  "py_index (pre @ [h4, h3, h2, h1]) (- 4) = Inr h4"
  by (simp_all add: py_index_def nth_append nat_add_distrib)

subsection \<open>The signal evaluator\<close>

text \<open>
  Claim C1. A histogram with at least four values is a list \<open>pre @ [h4, h3, h2, h1]\<close>.
  Whenever the histogram of the frame that \<^verbatim>\<open>macd_signal\<close> evaluates (the MACD line
  minus the signal line) is such a list, \<^verbatim>\<open>macd_signal\<close> returns a verdict (no index
  is out of range), and the verdict is the one the specification's four rules give, tried
  in the order BUY, the four-point SELL, HOLD, SELL. This holds for a frame that carries
  the MACD columns, which is evaluated as it is, and for a candle series, whose frame
  \<^verbatim>\<open>macd_signal\<close> gets from \<^verbatim>\<open>macd_indicator\<close>.
\<close>

theorem macd_signal_rules:
  assumes "col_macd df = Some cols"
    and "map2 (-) (macd_line cols) (macd_signal_line cols) = pre @ [h4, h3, h2, h1]"
  shows "macd_signal (From_frame df) kwargs = Inr (spec_macd_rules h4 h3 h2 h1) \<and>
         (macd_indicator (From_candles cs) p_short p_long p_signal = Inr df \<longrightarrow>
          macd_signal (From_candles cs) (p_short, p_long, p_signal)
            = Inr (spec_macd_rules h4 h3 h2 h1))"
  using assms
  by (simp add: macd_signal_def macd_hist_action_def momentum_building_def
      momentum_decreasing_def bnd_def py_index_last4 spec_macd_rules_def)

text \<open>
  The theorem at the four doubling bars: their histogram 0, 1/9, 1/3, 7/9 ends positive
  and rising, and the verdict is BUY for the frame and for the bars.
\<close>

theorem macd_signal_rules_witness:
  "macd_indicator (From_candles doubling_bars) 1 3 3 = Inr doubling_frame \<and>
   macd_signal (From_frame doubling_frame) default_periods = Inr BUY \<and>
   macd_signal (From_candles doubling_bars) (1, 3, 3) = Inr BUY"
proof -
  have ind: "macd_indicator (From_candles doubling_bars) 1 3 3 = Inr doubling_frame"
    by (simp add: macd_indicator_def ewm_mean_def bnd_def Let_def doubling_bars_def
        doubling_frame_def as_dataframe_def)
  have cols: "col_macd doubling_frame
                = Some \<lparr> ema_fast = [1, 2, 4, 8], ema_slow = [1, 5 / 3, 3, 17 / 3],
                         macd_line = [0, 1 / 3, 1, 7 / 3],
                         macd_signal_line = [0, 2 / 9, 2 / 3, 14 / 9] \<rparr>"
    by (simp add: doubling_frame_def)
  have hist: "map2 (-) (macd_line \<lparr> ema_fast = [1, 2, 4, 8], ema_slow = [1, 5 / 3, 3, 17 / 3],
                         macd_line = [0, 1 / 3, 1, 7 / 3],
                         macd_signal_line = [0, 2 / 9, 2 / 3, 14 / 9 :: real] \<rparr>)
                (macd_signal_line \<lparr> ema_fast = [1, 2, 4, 8], ema_slow = [1, 5 / 3, 3, 17 / 3],
                         macd_line = [0, 1 / 3, 1, 7 / 3],
                         macd_signal_line = [0, 2 / 9, 2 / 3, 14 / 9 :: real] \<rparr>)
              = [] @ [0, 1 / 9, 1 / 3, 7 / 9]"
    by simp
  from macd_signal_rules [OF cols hist, of default_periods doubling_bars 1 3 3] ind
  show ?thesis by (simp add: spec_macd_rules_def)
qed

text \<open>
  Claim C10, as stated, at a frame whose histogram is \<open>[1, 3, 2]\<close>: the latest value
  \<open>2\<close> is positive and the three values are not non-decreasing, yet \<^verbatim>\<open>macd_signal\<close>
  returns HOLD. The comparison chain of the SELL branch stops at \<open>3 \<le> 1\<close>, before it
  reads the fourth value from the end.
\<close>

theorem macd_three_points_hold:
  "map2 (-) [1, 3, 2] [0, 0, 0] = [1, 3, 2 :: real] \<and>
   (0::real) < 2 \<and> \<not> ((1::real) \<le> 3 \<and> (3::real) \<le> 2) \<and>
   macd_signal (From_frame (frame_with [1, 3, 2] [0, 0, 0])) default_periods = Inr HOLD \<and>
   macd_signal (From_frame (frame_with [1, 3, 2] [0, 0, 0])) default_periods \<noteq> Inl IndexError"
  by (simp add: frame_with_def macd_signal_def macd_hist_action_def momentum_building_def
      momentum_decreasing_def bnd_def py_index_def)

text \<open>
  Claim C10, amended. On a frame whose histogram has three values \<open>[h3, h2, h1]\<close>
  (\<open>h1\<close> the latest) \<^verbatim>\<open>macd_signal\<close> returns BUY when \<open>h1\<close> is positive and the values
  are non-decreasing; it raises \<^verbatim>\<open>IndexError\<close> exactly when \<open>h1\<close> is positive, the BUY
  ordering fails and the three values are non-increasing, because only then is the fourth
  value from the end read; otherwise it returns HOLD for a positive \<open>h1\<close> and SELL for a
  non-positive one.
\<close>

theorem macd_three_points:
  assumes "col_macd df = Some cols"
    and "map2 (-) (macd_line cols) (macd_signal_line cols) = [h3, h2, h1]"
  shows "macd_signal (From_frame df) kwargs =
     (if h1 > 0 \<and> h3 \<le> h2 \<and> h2 \<le> h1 then Inr BUY
      else if h1 > 0 \<and> h1 \<le> h2 \<and> h2 \<le> h3 then Inl IndexError
      else if h1 > 0 then Inr HOLD
      else Inr SELL)"
  using assms
  by (simp add: macd_signal_def macd_hist_action_def momentum_building_def
      momentum_decreasing_def bnd_def py_index_def)

text \<open>
  The theorem at the histograms \<open>[3, 2, 1]\<close> (falling: \<^verbatim>\<open>IndexError\<close>), \<open>[1, 2, 3]\<close>
  (rising: BUY) and \<open>[1, 2, - 1]\<close> (a latest value that is not positive: SELL).
\<close>

theorem macd_three_points_witness:
  "macd_signal (From_frame (frame_with [3, 2, 1] [0, 0, 0])) default_periods = Inl IndexError \<and>
   macd_signal (From_frame (frame_with [1, 2, 3] [0, 0, 0])) default_periods = Inr BUY \<and>
   macd_signal (From_frame (frame_with [2, 3, 0] [1, 1, 1])) default_periods = Inr SELL"
proof -
  have c: "col_macd (frame_with line signal)
             = Some \<lparr> ema_fast = map (\<lambda>x. 1) line, ema_slow = map (\<lambda>x. 1) line,
                      macd_line = line, macd_signal_line = signal \<rparr>" for line signal
    by (simp add: frame_with_def)
  show ?thesis
    using macd_three_points [OF c, of "[3, 2, 1]" "[0, 0, 0]" 3 2 1 default_periods]
      macd_three_points [OF c, of "[1, 2, 3]" "[0, 0, 0]" 1 2 3 default_periods]
      macd_three_points [OF c, of "[2, 3, 0]" "[1, 1, 1]" 1 2 "- 1" default_periods]
    by simp
qed

subsection \<open>The candle container\<close>

lemma np_max_Max: "xs \<noteq> [] \<Longrightarrow> np_max xs = Max (set xs)"
proof (cases xs)
  case (Cons a list)
  show ?thesis unfolding Cons np_max.simps by (rule Max.set_eq_fold [symmetric])
qed simp

lemma np_min_Min: "xs \<noteq> [] \<Longrightarrow> np_min xs = Min (set xs)"
proof (cases xs)
  case (Cons a list)
  show ?thesis unfolding Cons np_min.simps by (rule Min.set_eq_fold [symmetric])
qed simp

text \<open>
  Claim C8. Every candle series that the constructor returns has six sequences of one
  length (the two assertions refuse anything else, and the reversal keeps lengths). The
  time span of the empty series is 0; the time span of a series with bars is the latest
  time stamp minus the earliest, in seconds (the stamps are milliseconds), plus the width
  of one bar in seconds.
\<close>

theorem candles_lengths_and_timespan:
  assumes "OHLCVCandles_init smb ts res opens highs lows closes vols ord = Inr cs"
  shows "length (opening_positions cs) = length (timestamps cs) \<and>
         length (high_positions cs) = length (timestamps cs) \<and>
         length (low_positions cs) = length (timestamps cs) \<and>
         length (close_positions cs) = length (timestamps cs) \<and>
         length (volumes cs) = length (timestamps cs) \<and>
         (timestamps cs = [] \<longrightarrow> timespan cs = 0) \<and>
         (timestamps cs \<noteq> [] \<longrightarrow>
            (\<exists>width. map_of TIME_RESOLUTIONS (time_resolution cs) = Some width \<and>
               timespan cs =
                 (Max (set (timestamps cs)) - Min (set (timestamps cs))) / 1000
                   + real_of_int width))"
proof (cases "ts = []")
  case True
  with assms show ?thesis
    by (auto simp: OHLCVCandles_init_def bnd_def Let_def split: if_splits)
next
  case False
  with assms obtain width where w: "map_of TIME_RESOLUTIONS res = Some width"
    by (auto simp: OHLCVCandles_init_def bnd_def split: option.splits)
  from False have mm: "np_max ts = Max (set ts)" "np_min ts = Min (set ts)"
    by (simp_all add: np_max_Max np_min_Min)
  from assms False w mm show ?thesis
    by (auto simp: OHLCVCandles_init_def bnd_def Let_def split: if_splits)
qed

theorem candles_lengths_and_timespan_witness:
  "\<exists>cs. OHLCVCandles_init ''BTC'' [3000, 2000, 1000] ''1m'' [1, 2, 3] [4, 5, 6] [0, 1, 2]
           [2, 3, 4] [7, 8, 9] ''newer-to-older'' = Inr cs \<and>
        timestamps cs = [1000, 2000, 3000] \<and> length (volumes cs) = length (timestamps cs) \<and>
        timespan cs = (Max (set (timestamps cs)) - Min (set (timestamps cs))) / 1000 + 60"
proof -
  obtain cs where cs: "OHLCVCandles_init ''BTC'' [3000, 2000, 1000] ''1m'' [1, 2, 3] [4, 5, 6]
      [0, 1, 2] [2, 3, 4] [7, 8, 9] ''newer-to-older'' = Inr cs"
    by (simp add: OHLCVCandles_init_def bnd_def TIME_RESOLUTIONS_def)
  then have ts: "timestamps cs = [1000, 2000, 3000]" "time_resolution cs = ''1m''"
    by (auto simp: OHLCVCandles_init_def bnd_def TIME_RESOLUTIONS_def)
  from candles_lengths_and_timespan [OF cs] ts cs show ?thesis
    by (auto simp: TIME_RESOLUTIONS_def)
qed

subsection \<open>The quota guard\<close>

lemma limit_blocked:
  "get_remaining_limit c < 100 \<Longrightarrow>
     limit_api_calls func c = (Inl CoinbotExceededNumAPICallsError, c)"
  by (simp add: limit_api_calls_def raise_def)

lemma limit_passed:
  "\<not> get_remaining_limit c < 100 \<Longrightarrow> limit_api_calls func c = func c"
  by (simp add: limit_api_calls_def)

text \<open>
  Claim C2. With a remaining quota below 100 a guarded operation raises
  \<^verbatim>\<open>CoinbotExceededNumAPICallsError\<close> and leaves the client as it was, so no request
  has been sent: this holds of the decorator around any method, and so of each method of
  the client. With a quota of 100 or more the decorator runs the method: \<^verbatim>\<open>buy\<close>, for
  one, then sends its order.
\<close>

theorem quota_guard:
  "(get_remaining_limit c < 100 \<longrightarrow>
      limit_api_calls func c = (Inl CoinbotExceededNumAPICallsError, c) \<and>
      buy smb amount c = (Inl CoinbotExceededNumAPICallsError, c) \<and>
      sell smb amount c = (Inl CoinbotExceededNumAPICallsError, c) \<and>
      panic c = (Inl CoinbotExceededNumAPICallsError, c) \<and>
      get_available_symbols c = (Inl CoinbotExceededNumAPICallsError, c) \<and>
      get_owned_symbols c = (Inl CoinbotExceededNumAPICallsError, c) \<and>
      get_available_funds c = (Inl CoinbotExceededNumAPICallsError, c) \<and>
      get_symbol_price smb c = (Inl CoinbotExceededNumAPICallsError, c) \<and>
      get_symbol_owned_amount smb c = (Inl CoinbotExceededNumAPICallsError, c) \<and>
      get_symbol_24h_percentual_change smb c = (Inl CoinbotExceededNumAPICallsError, c) \<and>
      get_symbol_24h_volume smb c = (Inl CoinbotExceededNumAPICallsError, c) \<and>
      get_candles smb resolution span_name c = (Inl CoinbotExceededNumAPICallsError, c)) \<and>
   (100 \<le> get_remaining_limit c \<longrightarrow>
      limit_api_calls func c = func c \<and>
      buy smb amount c =
        (Inr (placeOrder (bitvavo c) (calls c) (smb @ ''-EUR'') ''buy'' amount),
         c\<lparr>calls := calls c @ [Call_placeOrder (smb @ ''-EUR'') ''buy'' amount]\<rparr>))"
  by (simp add: limit_blocked limit_passed buy_def sell_def panic_def get_available_symbols_def
      get_owned_symbols_def get_available_funds_def get_symbol_price_def
      get_symbol_owned_amount_def get_symbol_24h_percentual_change_def
      get_symbol_24h_volume_def get_candles_def api_def)

theorem quota_guard_witness:
  "buy ''BTC'' 25
     \<lparr>bitvavo = quota_stub (\<lambda>h. 99), calls = [], available_symbols = [''BTC'', ''EUR'']\<rparr>
     = (Inl CoinbotExceededNumAPICallsError,
        \<lparr>bitvavo = quota_stub (\<lambda>h. 99), calls = [], available_symbols = [''BTC'', ''EUR'']\<rparr>) \<and>
   buy ''BTC'' 25
     \<lparr>bitvavo = quota_stub (\<lambda>h. 100), calls = [], available_symbols = [''BTC'', ''EUR'']\<rparr>
     = (Inr (Order_filled 1 25),
        \<lparr>bitvavo = quota_stub (\<lambda>h. 100), calls = [Call_placeOrder ''BTC-EUR'' ''buy'' 25],
          available_symbols = [''BTC'', ''EUR'']\<rparr>)"
  using
    quota_guard [of "\<lparr>bitvavo = quota_stub (\<lambda>h. 99), calls = [],
      available_symbols = [''BTC'', ''EUR'']\<rparr>" "ret ()" "''BTC''" 25 "''1h''" "''1h''"]
    quota_guard [of "\<lparr>bitvavo = quota_stub (\<lambda>h. 100), calls = [],
      available_symbols = [''BTC'', ''EUR'']\<rparr>" "ret ()" "''BTC''" 25 "''1h''" "''1h''"]
  by (simp add: get_remaining_limit_def quota_stub_def)

subsection \<open>The price of a symbol\<close>

lemma init_has_EUR:
  assumes "BitvavoClient_init b h = (Inr (), c0)"
  shows "''EUR'' \<in> set (available_symbols c0)"
  using assms
  by (auto simp: BitvavoClient_init_def get_available_symbols_def limit_api_calls_def
      seq_def api_def ret_def raise_def split: if_splits prod.splits sum.splits)

text \<open>
  Claim C9, as stated, on a client that was constructed while the quota was 100 and whose
  quota has gone down to 99 with the request of the constructor: the price of \<^verbatim>\<open>"EUR"\<close>
  is not 1.0, the call raises \<^verbatim>\<open>CoinbotExceededNumAPICallsError\<close>.
\<close>

theorem symbol_price_quota_exhausted:
  "fst (BitvavoClient_init (quota_stub (\<lambda>h. 100 - int (length h))) []) = Inr () \<and>
   fst (get_symbol_price ''EUR''
          (snd (BitvavoClient_init (quota_stub (\<lambda>h. 100 - int (length h))) [])))
     = Inl CoinbotExceededNumAPICallsError"
  by (simp add: BitvavoClient_init_def get_available_symbols_def get_symbol_price_def
      limit_api_calls_def get_remaining_limit_def quota_stub_def seq_def api_def ret_def
      raise_def)

text \<open>
  Claim C9, amended. On a client \<open>c\<close> that holds the symbols cached by a successful
  construction: while the remaining quota is at least 100, the price of \<^verbatim>\<open>"EUR"\<close> is
  1.0 and the client is unchanged (no request is sent), and the price of a symbol that is
  not among the available ones raises \<^verbatim>\<open>CoinbotUnexpectedValueError\<close>; with a quota
  below 100 every call raises \<^verbatim>\<open>CoinbotExceededNumAPICallsError\<close> instead.
\<close>

theorem symbol_price_guarded:
  assumes "BitvavoClient_init b h = (Inr (), c0)"
    and "available_symbols c = available_symbols c0"
  shows "(100 \<le> get_remaining_limit c \<longrightarrow> get_symbol_price ''EUR'' c = (Inr 1, c)) \<and>
         (100 \<le> get_remaining_limit c \<and> smb \<notin> set (available_symbols c) \<longrightarrow>
            get_symbol_price smb c = (Inl CoinbotUnexpectedValueError, c)) \<and>
         (get_remaining_limit c < 100 \<longrightarrow>
            get_symbol_price smb c = (Inl CoinbotExceededNumAPICallsError, c))"
  using init_has_EUR [OF assms(1)] assms(2)
  by (simp add: get_symbol_price_def limit_api_calls_def ret_def raise_def)

theorem symbol_price_guarded_witness:
  "BitvavoClient_init (quota_stub (\<lambda>h. 1000)) [] =
     (Inr (), \<lparr>bitvavo = quota_stub (\<lambda>h. 1000), calls = [Call_markets],
               available_symbols = [''BTC'', ''ETH'', ''EUR'']\<rparr>) \<and>
   get_symbol_price ''EUR''
     \<lparr>bitvavo = quota_stub (\<lambda>h. 1000), calls = [Call_markets],
       available_symbols = [''BTC'', ''ETH'', ''EUR'']\<rparr>
     = (Inr 1, \<lparr>bitvavo = quota_stub (\<lambda>h. 1000), calls = [Call_markets],
                available_symbols = [''BTC'', ''ETH'', ''EUR'']\<rparr>) \<and>
   get_symbol_price ''DOGE''
     \<lparr>bitvavo = quota_stub (\<lambda>h. 1000), calls = [Call_markets],
       available_symbols = [''BTC'', ''ETH'', ''EUR'']\<rparr>
     = (Inl CoinbotUnexpectedValueError,
        \<lparr>bitvavo = quota_stub (\<lambda>h. 1000), calls = [Call_markets],
          available_symbols = [''BTC'', ''ETH'', ''EUR'']\<rparr>)"
proof -
  let ?c = "\<lparr>bitvavo = quota_stub (\<lambda>h. 1000), calls = [Call_markets],
             available_symbols = [''BTC'', ''ETH'', ''EUR'']\<rparr>"
  have made: "BitvavoClient_init (quota_stub (\<lambda>h. 1000)) [] = (Inr (), ?c)"
    by (simp add: BitvavoClient_init_def get_available_symbols_def limit_api_calls_def
        get_remaining_limit_def quota_stub_def seq_def api_def ret_def)
  have quota: "100 \<le> get_remaining_limit ?c"
    by (simp add: get_remaining_limit_def quota_stub_def)
  from symbol_price_guarded [OF made refl, of "''DOGE''"] quota made show ?thesis
    by simp
qed

subsection \<open>The selection of symbols\<close>

lemma insort_key_map_inner:
  "insort_key k (g y) (map g ys) = map g (insort_key (\<lambda>a. k (g a)) y ys)"
  by (induction ys) simp_all

lemma sort_key_map_inner:
  "sort_key k (map g xs) = map g (sort_key (\<lambda>a. k (g a)) xs)"
  by (induction xs) (simp_all add: insort_key_map_inner)

lemma select_best_symbols_eq:
  assumes "0 \<le> n"
  shows "select_best_symbols interesting n =
           map fst (take (nat n) (rev (sort_key rank_key interesting)))"
proof -
  let ?g = "\<lambda>(s, m). (s, volume_24h_magnitude m, price_24h_growth m, volume_24h_magnitude m)"
  let ?k = "\<lambda>(s, magnitude, growth, m). (magnitude, growth)"
  have k: "(\<lambda>a. ?k (?g a)) = rank_key"
    by (auto simp: rank_key_def fun_eq_iff)
  have sorted_part: "sort_key ?k (map ?g interesting) = map ?g (sort_key rank_key interesting)"
    using sort_key_map_inner [of ?k ?g interesting] by (simp only: k)
  have names: "map fst (map ?g ys) = map fst ys" for ys
    by (induction ys) auto
  have "select_best_symbols interesting n
          = map fst (take (nat n) (rev (map ?g (sort_key rank_key interesting))))"
    using assms unfolding select_best_symbols_def py_slice_to_def Let_def sorted_part by simp
  also have "\<dots> = map fst (map ?g (take (nat n) (rev (sort_key rank_key interesting))))"
    by (simp only: rev_map take_map)
  also have "\<dots> = map fst (take (nat n) (rev (sort_key rank_key interesting)))"
    by (rule names)
  finally show ?thesis .
qed

lemma rank_key_le: "rank_key a \<le> rank_key b \<longleftrightarrow> ranks_at_least (snd b) (snd a)"
  by (auto simp: rank_key_def ranks_at_least_def less_eq_prod_def)

lemma ranked_descending:
  "sorted_wrt (\<lambda>a b. ranks_at_least (snd a) (snd b)) (rev (sort_key rank_key xs))"
proof -
  have "sorted (map rank_key (sort_key rank_key xs))" by (rule sorted_sort_key)
  then have "sorted_wrt (\<lambda>a b. rank_key a \<le> rank_key b) (sort_key rank_key xs)"
    by (simp add: sorted_map)
  then have "sorted_wrt (\<lambda>a b. rank_key b \<le> rank_key a) (rev (sort_key rank_key xs))"
    by (simp add: sorted_wrt_rev)
  then show ?thesis by (simp add: rank_key_le)
qed

text \<open>
  Claim C5. For every dictionary of promising symbols (its entries in any order) and
  every selection count \<open>n\<close> (a count: not negative), the symbols selected are those of
  the first \<open>n\<close> entries (all of them when there are fewer) of an arrangement of the
  entries in which every entry ranks at least as high as each entry after it: higher
  magnitude first whatever the growth, higher growth first at equal magnitude. So the
  selected symbols come out in descending order, and no entry left out ranks above a
  selected one.
\<close>

theorem select_best_symbols_top:
  assumes "0 \<le> n"
  shows "\<exists>chosen left.
           select_best_symbols interesting n = map fst chosen \<and>
           mset (chosen @ left) = mset interesting \<and>
           length chosen = min (nat n) (length interesting) \<and>
           sorted_wrt (\<lambda>a b. ranks_at_least (snd a) (snd b)) (chosen @ left)"
proof -
  let ?r = "rev (sort_key rank_key interesting)"
  have "select_best_symbols interesting n = map fst (take (nat n) ?r)"
    using assms by (rule select_best_symbols_eq)
  moreover have "mset (take (nat n) ?r @ drop (nat n) ?r) = mset interesting"
    by simp
  moreover have "length (take (nat n) ?r) = min (nat n) (length interesting)"
    by simp
  moreover have
    "sorted_wrt (\<lambda>a b. ranks_at_least (snd a) (snd b)) (take (nat n) ?r @ drop (nat n) ?r)"
    using ranked_descending [of interesting] by simp
  ultimately show ?thesis by blast
qed

theorem select_best_symbols_top_witness:
  "select_best_symbols four_candidates 3 = [''ETH'', ''XRP'', ''BTC''] \<and>
   (\<exists>chosen left.
      select_best_symbols four_candidates 3 = map fst chosen \<and>
      mset (chosen @ left) = mset four_candidates \<and>
      length chosen = min (nat 3) (length four_candidates) \<and>
      sorted_wrt (\<lambda>a b. ranks_at_least (snd a) (snd b)) (chosen @ left))"
proof -
  have "select_best_symbols four_candidates 3 = [''ETH'', ''XRP'', ''BTC'']"
    by (simp add: select_best_symbols_def py_slice_to_def four_candidates_def metrics_of_def)
  moreover have "(0::int) \<le> 3" by simp
  ultimately show ?thesis
    using select_best_symbols_top [of 3 four_candidates] by blast
qed

subsection \<open>The order of the bars that \<^verbatim>\<open>get_candles\<close> returns\<close>

lemma spans_positive: "map_of TIME_SPANS k = Some s \<Longrightarrow> 1 \<le> s"
  by (auto simp: TIME_SPANS_def split: if_splits)

lemma resolutions_positive: "map_of TIME_RESOLUTIONS k = Some w \<Longrightarrow> 1 \<le> w"
  by (auto simp: TIME_RESOLUTIONS_def split: if_splits)

lemma window_start_before_begin:
  assumes "1 \<le> s"
  shows "py_int (real_of_int b / 1000 - real_of_int s) * 1000 \<le> b"
proof (cases "0 \<le> real_of_int b / 1000 - real_of_int s")
  case True
  have "real_of_int \<lfloor>real_of_int b / 1000 - real_of_int s\<rfloor> \<le> real_of_int b / 1000 - real_of_int s"
    by (rule of_int_floor_le)
  then have "real_of_int (\<lfloor>real_of_int b / 1000 - real_of_int s\<rfloor> * 1000) \<le> real_of_int b"
    using assms by simp
  then have "\<lfloor>real_of_int b / 1000 - real_of_int s\<rfloor> * 1000 \<le> b"
    by (simp only: of_int_le_iff)
  with True show ?thesis by (simp add: py_int_def)
next
  case False
  have "real_of_int \<lceil>real_of_int b / 1000 - real_of_int s\<rceil> < real_of_int b / 1000 - real_of_int s + 1"
    using ceiling_correct [of "real_of_int b / 1000 - real_of_int s"] by linarith
  then have "real_of_int (\<lceil>real_of_int b / 1000 - real_of_int s\<rceil> * 1000) \<le> real_of_int b"
    using assms by simp
  then have "\<lceil>real_of_int b / 1000 - real_of_int s\<rceil> * 1000 \<le> b"
    by (simp only: of_int_le_iff)
  with False show ?thesis by (simp add: py_int_def)
qed

lemma requests_positive:
  assumes "1 \<le> s" "1 \<le> w"
  shows "0 < \<lceil>real_of_int \<lceil>real_of_int s / real_of_int w\<rceil> / 1000\<rceil>"
proof -
  have "0 < real_of_int s / real_of_int w" using assms by simp
  then have "0 < \<lceil>real_of_int s / real_of_int w\<rceil>" by (simp add: ceiling_less_iff)
  then have "0 < real_of_int \<lceil>real_of_int s / real_of_int w\<rceil> / 1000" by simp
  then show ?thesis by (simp only: zero_less_ceiling)
qed

lemma request_candles_result:
  "request_candles smb res begin_t slice i rows c =
     (Inr (rows @ candles (bitvavo c) (calls c) (smb @ ''-EUR'') res
                     (begin_t - (int i + 1) * slice) (begin_t - int i * slice)),
      c\<lparr>calls := calls c @ [Call_candles (smb @ ''-EUR'') res
                     (begin_t - (int i + 1) * slice) (begin_t - int i * slice)]\<rparr>)"
  by (simp add: request_candles_def Let_def seq_def api_def ret_def)

text \<open>
  The request loop keeps the rows newest first: the window of each request lies before
  the windows of the requests made earlier.
\<close>

lemma request_loop_sorted:
  assumes "answers_newest_first (bitvavo c)" and "0 \<le> slice"
    and "for_acc [i..<n] rows (request_candles smb res begin_t slice) c = (Inr fetched, c')"
    and "sorted_wrt (\<lambda>x y. x \<ge> y) (map c_time rows)"
    and "\<forall>row \<in> set rows. real_of_int (begin_t - int i * slice) \<le> c_time row"
  shows "sorted_wrt (\<lambda>x y. x \<ge> y) (map c_time fetched)"
  using assms
proof (induction "n - i" arbitrary: i rows c)
  case 0
  then show ?case by (simp add: ret_def)
next
  case (Suc k)
  then have i: "i < n" and k: "k = n - Suc i" by simp_all
  let ?start = "begin_t - (int i + 1) * slice" and ?end = "begin_t - int i * slice"
  let ?answer = "candles (bitvavo c) (calls c) (smb @ ''-EUR'') res ?start ?end"
  let ?c1 = "c\<lparr>calls := calls c @ [Call_candles (smb @ ''-EUR'') res ?start ?end]\<rparr>"
  from Suc.prems(1) have ans_sorted: "sorted_wrt (\<lambda>x y. x \<ge> y) (map c_time ?answer)"
    and ans_window: "\<forall>row \<in> set ?answer.
        real_of_int ?start \<le> c_time row \<and> c_time row \<le> real_of_int ?end"
    unfolding answers_newest_first_def by blast+
  have step: "for_acc [Suc i..<n] (rows @ ?answer) (request_candles smb res begin_t slice) ?c1
      = (Inr fetched, c')"
    using Suc.prems(3) i
    by (simp add: upt_conv_Cons seq_def request_candles_result)
  have le: "real_of_int ?start \<le> real_of_int ?end"
    using Suc.prems(2) by (simp add: algebra_simps)
  have sorted': "sorted_wrt (\<lambda>x y. x \<ge> y) (map c_time (rows @ ?answer))"
    using Suc.prems(4,5) ans_sorted ans_window
    by (fastforce simp: sorted_wrt_append)
  have bound': "\<forall>row \<in> set (rows @ ?answer).
      real_of_int (begin_t - int (Suc i) * slice) \<le> c_time row"
  proof
    fix row assume "row \<in> set (rows @ ?answer)"
    then consider "row \<in> set rows" | "row \<in> set ?answer" by auto
    then show "real_of_int (begin_t - int (Suc i) * slice) \<le> c_time row"
    proof cases
      case 1
      with Suc.prems(5) have "real_of_int ?end \<le> c_time row" by blast
      with le show ?thesis by (simp add: algebra_simps)
    next
      case 2
      with ans_window have "real_of_int ?start \<le> c_time row" by blast
      then show ?thesis by (simp add: algebra_simps)
    qed
  qed
  show ?case
    by (rule Suc.hyps(1) [OF k _ Suc.prems(2) step sorted' bound']) (simp add: Suc.prems(1))
qed

lemma init_newer_to_older:
  assumes "OHLCVCandles_init smb ts res opens highs lows closes vols ''newer-to-older'' = Inr cs"
  shows "timestamps cs = rev ts \<and> order cs = ''newer-to-older''"
  using assms
  by (auto simp: OHLCVCandles_init_def bnd_def Let_def split: if_splits sum.splits option.splits)

lemma two_bars_one_request: "\<lceil>(1::real) / 500\<rceil> = 1"
  by (simp add: ceiling_eq_iff)

lemma edge_candles:
  "map_sum id timestamps (fst (get_candles ''BTC'' ''1h'' ''2h'' edge_client))
     = Inr [1699992800000, 1700000000000]"
  by (simp add: get_candles_def limit_api_calls_def get_remaining_limit_def edge_client_def
      market_stub_def TIME_RESOLUTIONS_def TIME_SPANS_def seq_def api_def ret_def lift_def
      py_int_def request_candles_def window_edges_def OHLCVCandles_init_def bnd_def Let_def
      two_bars_one_request)

lemma edge_newest_first: "answers_newest_first (bitvavo edge_client)"
  by (auto simp: answers_newest_first_def edge_client_def market_stub_def window_edges_def)

text \<open>
  Claim C6, as stated, on an exchange that answers newest first: two hours of one-hour
  bars of BTC are fetched, the exchange answers with the bar at the end of the window
  and then the bar at its start, and the series returned holds the time stamp of the
  earlier bar first. Its time stamps are not in non-increasing order.
\<close>

theorem get_candles_not_newest_first:
  "answers_newest_first (bitvavo edge_client) \<and>
   map_sum id timestamps (fst (get_candles ''BTC'' ''1h'' ''2h'' edge_client))
     = Inr [1699992800000, 1700000000000] \<and>
   \<not> sorted_wrt (\<lambda>x y. x \<ge> y) [1699992800000, 1700000000000 :: real]"
  using edge_candles edge_newest_first by simp

text \<open>
  Claim C6, amended. The constructor is told that the bars it is given are ordered
  \<^verbatim>\<open>"newer-to-older"\<close> and reverses them. So for every successful call of
  \<^verbatim>\<open>get_candles\<close> on an exchange that answers each request with bars of the window
  asked for, newest first, the series returned is ordered oldest to newest: its time
  stamps are in non-decreasing order, the most recent bar last. Its attribute \<open>order\<close>
  still reads \<^verbatim>\<open>"newer-to-older"\<close>.
\<close>

theorem get_candles_oldest_first:
  assumes "get_candles smb resolution span_name c = (Inr cs, c')"
    and "answers_newest_first (bitvavo c)"
  shows "sorted (timestamps cs) \<and> order cs = ''newer-to-older''"
proof -
  from assms(1) obtain width span_seconds
    where w: "map_of TIME_RESOLUTIONS resolution = Some width"
      and s: "map_of TIME_SPANS span_name = Some span_seconds"
    by (auto simp: get_candles_def limit_api_calls_def raise_def
        split: if_splits option.splits)
  define begin_t where "begin_t = time (bitvavo c) (calls c)"
  define c1 where "c1 = c\<lparr>calls := calls c @ [Call_time]\<rparr>"
  define n where "n = \<lceil>real_of_int \<lceil>real_of_int span_seconds / real_of_int width\<rceil> / 1000\<rceil>"
  define total where
    "total = begin_t - py_int (real_of_int begin_t / 1000 - real_of_int span_seconds) * 1000"
  have n_pos: "0 < n"
    unfolding n_def
    by (rule requests_positive [OF spans_positive [OF s] resolutions_positive [OF w]])
  have total_nonneg: "0 \<le> total"
    unfolding total_def using window_start_before_begin [OF spans_positive [OF s], of begin_t]
    by simp
  have slice: "0 \<le> total div n"
    using total_nonneg n_pos by (simp add: pos_imp_zdiv_nonneg_iff)
  from assms(1) w s n_pos obtain rows c2
    where loop: "for_acc [0..<nat n] [] (request_candles smb resolution begin_t (total div n)) c1
                   = (Inr rows, c2)"
      and made: "OHLCVCandles_init smb (map c_time rows) resolution (map c_open rows)
                   (map c_high rows) (map c_low rows) (map c_close rows) (map c_volume rows)
                   ''newer-to-older'' = Inr cs"
    by (auto simp: get_candles_def limit_api_calls_def raise_def seq_def api_def Let_def
        lift_def n_def total_def begin_t_def c1_def
        split: if_splits option.splits sum.splits prod.splits)
  have "sorted_wrt (\<lambda>x y. x \<ge> y) (map c_time rows)"
    by (rule request_loop_sorted [OF _ slice loop]) (simp_all add: c1_def assms(2))
  then have "sorted (rev (map c_time rows))"
    by (simp add: sorted_wrt_rev)
  with init_newer_to_older [OF made] show ?thesis by simp
qed

theorem get_candles_oldest_first_witness:
  "\<exists>cs c'. get_candles ''BTC'' ''1h'' ''2h'' edge_client = (Inr cs, c') \<and>
           answers_newest_first (bitvavo edge_client) \<and>
           timestamps cs = [1699992800000, 1700000000000] \<and>
           sorted (timestamps cs) \<and> order cs = ''newer-to-older''"
proof -
  obtain r c' where run: "get_candles ''BTC'' ''1h'' ''2h'' edge_client = (r, c')"
    by (cases "get_candles ''BTC'' ''1h'' ''2h'' edge_client")
  with edge_candles obtain cs where r: "r = Inr cs"
    and ts: "timestamps cs = [1699992800000, 1700000000000]"
    by (cases r) auto
  from get_candles_oldest_first [OF run [unfolded r] edge_newest_first] run r ts
    edge_newest_first
  show ?thesis by blast
qed

subsection \<open>Loops over the owned symbols\<close>

lemma sent_simps [simp]:
  "bitvavo (sent c new) = bitvavo c"
  "available_symbols (sent c new) = available_symbols c"
  "calls (sent c new) = calls c @ new"
  "sent (sent c a) b = sent c (a @ b)"
  "get_remaining_limit (sent c new) = getRemainingLimit (bitvavo c) (calls c @ new)"
  by (simp_all add: sent_def get_remaining_limit_def)

lemma sent_nil [simp]: "sent c [] = c"
  by (simp add: sent_def)

lemma api_sent:
  "api request answer c = (Inr (answer (bitvavo c) (calls c)), sent c [request])"
  by (simp add: api_def sent_def)

lemma get_owned_symbols_ok:
  assumes "100 \<le> get_remaining_limit c"
  shows "get_owned_symbols c = (Inr (owned_of (balance (bitvavo c) (calls c))), sent c [Call_balance])"
  using assms
  by (simp add: get_owned_symbols_def limit_api_calls_def seq_def api_sent ret_def owned_of_def)

lemma get_symbol_owned_amount_ok:
  assumes "100 \<le> get_remaining_limit c" and "smb \<in> set (available_symbols c)"
  shows "\<exists>amount. get_symbol_owned_amount smb c = (Inr amount, sent c [Call_balance])"
  using assms
  by (simp add: get_symbol_owned_amount_def limit_api_calls_def seq_def api_sent ret_def)

lemma sell_ok:
  assumes "100 \<le> get_remaining_limit c"
  shows "sell smb amount c =
           (Inr (placeOrder (bitvavo c) (calls c) (smb @ ''-EUR'') ''sell'' amount),
            sent c [Call_placeOrder (smb @ ''-EUR'') ''sell'' amount])"
  using assms by (simp add: sell_def limit_api_calls_def api_sent)

lemma quota_kept_limit: "quota_kept (bitvavo c) \<Longrightarrow> 100 \<le> get_remaining_limit c"
  by (simp add: quota_kept_def get_remaining_limit_def)

lemma panic_loop:
  assumes "quota_kept (bitvavo c)" and "set xs \<subseteq> set (available_symbols c)"
  shows "\<exists>new. for_each xs (\<lambda>owned_symbol.
                   seq (get_symbol_owned_amount owned_symbol)
                     (\<lambda>amount_in_coins. seq (sell owned_symbol amount_in_coins) (\<lambda>_. ret ()))) c
               = (Inr (), sent c new) \<and>
               sold_markets new = map (\<lambda>s. s @ ''-EUR'') xs"
  using assms
proof (induction xs arbitrary: c)
  case Nil
  have "for_each [] (\<lambda>owned_symbol.
                   seq (get_symbol_owned_amount owned_symbol)
                     (\<lambda>amount_in_coins. seq (sell owned_symbol amount_in_coins) (\<lambda>_. ret ()))) c
         = (Inr (), sent c []) \<and> sold_markets [] = map (\<lambda>s. s @ ''-EUR'') []"
    by (simp add: ret_def sold_markets_def)
  then show ?case by blast
next
  case (Cons x xs)
  let ?body = "\<lambda>owned_symbol.
                   seq (get_symbol_owned_amount owned_symbol)
                     (\<lambda>amount_in_coins. seq (sell owned_symbol amount_in_coins) (\<lambda>_. ret ()))"
  from Cons.prems have x: "x \<in> set (available_symbols c)" by simp
  from get_symbol_owned_amount_ok [OF quota_kept_limit [OF Cons.prems(1)] x]
  obtain amount where a: "get_symbol_owned_amount x c = (Inr amount, sent c [Call_balance])"
    by blast
  let ?c1 = "sent c [Call_balance]"
  have q1: "quota_kept (bitvavo ?c1)" using Cons.prems(1) by simp
  have s: "sell x amount ?c1 =
      (Inr (placeOrder (bitvavo ?c1) (calls ?c1) (x @ ''-EUR'') ''sell'' amount),
       sent ?c1 [Call_placeOrder (x @ ''-EUR'') ''sell'' amount])"
    by (rule sell_ok [OF quota_kept_limit [OF q1]])
  let ?c2 = "sent c [Call_balance, Call_placeOrder (x @ ''-EUR'') ''sell'' amount]"
  have "quota_kept (bitvavo ?c2)" "set xs \<subseteq> set (available_symbols ?c2)"
    using Cons.prems by simp_all
  from Cons.IH [OF this] obtain new where
    rest: "for_each xs ?body ?c2 = (Inr (), sent ?c2 new)"
    and sold: "sold_markets new = map (\<lambda>s. s @ ''-EUR'') xs"
    by blast
  have "for_each (x # xs) ?body c
          = (Inr (), sent c ([Call_balance, Call_placeOrder (x @ ''-EUR'') ''sell'' amount] @ new))"
    using a s rest by (simp add: seq_def ret_def)
  moreover have "sold_markets ([Call_balance, Call_placeOrder (x @ ''-EUR'') ''sell'' amount] @ new)
      = map (\<lambda>s. s @ ''-EUR'') (x # xs)"
    using sold by (simp add: sold_markets_def)
  ultimately show ?case by blast
qed

lemma panic_sells_all:
  assumes "quota_kept (bitvavo c)"
    and "set (owned_of (balance (bitvavo c) (calls c))) \<subseteq> set (available_symbols c)"
  shows "\<exists>new. panic c = (Inr (), sent c new) \<and>
               sold_markets new
                 = map (\<lambda>s. s @ ''-EUR'') (owned_of (balance (bitvavo c) (calls c)))"
proof -
  let ?owned = "owned_of (balance (bitvavo c) (calls c))"
  let ?c1 = "sent c [Call_balance]"
  have "quota_kept (bitvavo ?c1)" "set ?owned \<subseteq> set (available_symbols ?c1)"
    using assms by simp_all
  from panic_loop [OF this] obtain new where
    loop: "for_each ?owned (\<lambda>owned_symbol.
             seq (get_symbol_owned_amount owned_symbol)
               (\<lambda>amount_in_coins. seq (sell owned_symbol amount_in_coins) (\<lambda>_. ret ()))) ?c1
           = (Inr (), sent ?c1 new)"
    and sold: "sold_markets new = map (\<lambda>s. s @ ''-EUR'') ?owned"
    by blast
  have "panic c = (Inr (), sent c (Call_balance # new))"
    using quota_kept_limit [OF assms(1)] loop
    by (simp add: panic_def limit_api_calls_def seq_def get_owned_symbols_ok)
  moreover have "sold_markets (Call_balance # new) = map (\<lambda>s. s @ ''-EUR'') ?owned"
    using sold by (simp add: sold_markets_def)
  ultimately show ?thesis by blast
qed

lemma length_ewm_from: "length (ewm_from d a b xs) = length xs"
  by (induction xs arbitrary: a b) simp_all

lemma macd_indicator_ok:
  assumes "1 \<le> p_short" "1 \<le> p_long" "1 \<le> p_signal"
  shows "\<exists>df cols. macd_indicator (From_candles cs) p_short p_long p_signal = Inr df \<and>
           col_macd df = Some cols \<and>
           length (macd_line cols) = length (close_positions cs) \<and>
           length (macd_signal_line cols) = length (close_positions cs)"
  using assms
  by (simp add: macd_indicator_def ewm_mean_def bnd_def Let_def length_ewm_from)

lemma four_elements: "length xs = 4 \<Longrightarrow> \<exists>a b c d. xs = [a, b, c, d]"
  by (auto simp: numeral_eq_Suc length_Suc_conv)

lemma macd_hist_action_total:
  assumes "4 \<le> length h"
  shows "\<exists>verdict. macd_hist_action h = Inr verdict"
proof -
  from assms obtain pre h4 h3 h2 h1 where h: "h = pre @ [h4, h3, h2, h1]"
  proof -
    have "h = take (length h - 4) h @ drop (length h - 4) h" by simp
    moreover from assms have "length (drop (length h - 4) h) = 4" by simp
    then obtain h4 h3 h2 h1 where "drop (length h - 4) h = [h4, h3, h2, h1]"
      using four_elements by blast
    ultimately show ?thesis using that by metis
  qed
  show ?thesis unfolding h
    by (simp add: macd_hist_action_def momentum_building_def momentum_decreasing_def
        bnd_def py_index_last4)
qed

lemma macd_signal_frame_ok:
  assumes "col_macd df = Some cols" "4 \<le> length (macd_line cols)"
    "length (macd_signal_line cols) = length (macd_line cols)"
  shows "\<exists>verdict. macd_signal (From_frame df) kwargs = Inr verdict"
proof -
  have "4 \<le> length (map2 (-) (macd_line cols) (macd_signal_line cols))"
    using assms by simp
  from macd_hist_action_total [OF this] assms(1) show ?thesis
    by (simp add: macd_signal_def bnd_def)
qed

lemma resolution_widths:
  "map_of TIME_RESOLUTIONS k = Some w \<Longrightarrow> 60 \<le> w \<and> w \<le> 86400"
  by (auto simp: TIME_RESOLUTIONS_def split: if_splits)

lemma window_total:
  "2592000000 - 1000
     < b - py_int (real_of_int b / 1000 - real_of_int 2592000) * 1000"
proof -
  let ?x = "real_of_int b / 1000 - real_of_int 2592000"
  have "real_of_int (py_int ?x) < ?x + 1"
    unfolding py_int_def using ceiling_correct [of ?x] of_int_floor_le [of ?x]
    by (simp split: if_splits)
  then have "real_of_int (py_int ?x * 1000) < real_of_int (b - 2592000000 + 1000)"
    by simp
  then have "py_int ?x * 1000 < b - 2592000000 + 1000"
    by (simp only: of_int_less_iff)
  then show ?thesis by simp
qed

lemma requests_count:
  assumes "60 \<le> w" "w \<le> 86400"
  shows "(2592 \<le> w \<longrightarrow> \<lceil>real_of_int \<lceil>real_of_int 2592000 / real_of_int w\<rceil> / 1000\<rceil> = 1) \<and>
         \<lceil>real_of_int \<lceil>real_of_int 2592000 / real_of_int w\<rceil> / 1000\<rceil> \<le> 44"
proof
  let ?bars = "\<lceil>real_of_int 2592000 / real_of_int w\<rceil>"
  have pos: "0 < \<lceil>real_of_int ?bars / 1000\<rceil>"
    by (rule requests_positive) (use assms in simp_all)
  show "2592 \<le> w \<longrightarrow> \<lceil>real_of_int ?bars / 1000\<rceil> = 1"
  proof
    assume "2592 \<le> w"
    then have "real_of_int 2592000 / real_of_int w \<le> 1000"
      by (simp add: field_simps)
    then have "?bars \<le> 1000" by (simp add: ceiling_le_iff)
    then have "real_of_int ?bars / 1000 \<le> 1" by simp
    then have "\<lceil>real_of_int ?bars / 1000\<rceil> \<le> 1" by (simp add: ceiling_le_iff)
    with pos show "\<lceil>real_of_int ?bars / 1000\<rceil> = 1" by linarith
  qed
  have "real_of_int 2592000 / real_of_int w \<le> 43200"
    using assms by (simp add: field_simps)
  then have "?bars \<le> 43200" by (simp add: ceiling_le_iff)
  then have "real_of_int ?bars / 1000 \<le> 44" by simp
  then show "\<lceil>real_of_int ?bars / 1000\<rceil> \<le> 44" by (simp add: ceiling_le_iff)
qed

lemma slice_wide:
  assumes "map_of TIME_RESOLUTIONS res = Some w"
  shows "20 * (w * 1000)
           \<le> (b - py_int (real_of_int b / 1000 - real_of_int 2592000) * 1000)
               div \<lceil>real_of_int \<lceil>real_of_int 2592000 / real_of_int w\<rceil> / 1000\<rceil>"
proof -
  let ?total = "b - py_int (real_of_int b / 1000 - real_of_int 2592000) * 1000"
  let ?n = "\<lceil>real_of_int \<lceil>real_of_int 2592000 / real_of_int w\<rceil> / 1000\<rceil>"
  from resolution_widths [OF assms] have w: "60 \<le> w" "w \<le> 86400" by simp_all
  have pos: "0 < ?n"
    by (rule requests_positive) (use w in simp_all)
  have total: "2591999000 < ?total" using window_total [of b] by simp
  have "20 * (w * 1000) * ?n \<le> ?total"
  proof (cases "2592 \<le> w")
    case True
    with requests_count [OF w] have "?n = 1" by simp
    then show ?thesis using total w by simp
  next
    case False
    then have "20 * (w * 1000) \<le> 51820000" by simp
    moreover from requests_count [OF w] have "?n \<le> 44" by simp
    moreover have "(0::int) \<le> 51820000" by simp
    moreover have "0 \<le> ?n" using pos by linarith
    ultimately have "20 * (w * 1000) * ?n \<le> 51820000 * 44"
      by (rule mult_mono)
    then show ?thesis using total by simp
  qed
  then have "20 * (w * 1000) * ?n div ?n \<le> ?total div ?n"
    using pos by (rule zdiv_mono1)
  moreover have "?n \<noteq> 0" using pos by linarith
  then have "20 * (w * 1000) * ?n div ?n = 20 * (w * 1000)"
    by (rule nonzero_mult_div_cancel_right)
  ultimately show ?thesis by (simp only:)
qed

lemma request_candles_sent:
  "request_candles smb res begin_t slice i rows c =
     (Inr (rows @ candles (bitvavo c) (calls c) (smb @ ''-EUR'') res
                     (begin_t - (int i + 1) * slice) (begin_t - int i * slice)),
      sent c [Call_candles (smb @ ''-EUR'') res
                     (begin_t - (int i + 1) * slice) (begin_t - int i * slice)])"
  by (simp add: request_candles_result sent_def)

lemma request_loop_ok:
  assumes "bars_enough (bitvavo c)" and "map_of TIME_RESOLUTIONS res = Some w"
    and "20 * (w * 1000) \<le> slice"
  shows "\<exists>fetched new.
           for_acc [i..<n] rows (request_candles smb res begin_t slice) c
             = (Inr fetched, sent c new) \<and>
           length rows + 20 * (n - i) \<le> length fetched \<and>
           candle_markets new = replicate (n - i) (smb @ ''-EUR'')"
  using assms(1)
proof (induction "n - i" arbitrary: i rows c)
  case 0
  then have "for_acc [i..<n] rows (request_candles smb res begin_t slice) c
      = (Inr rows, sent c []) \<and> length rows + 20 * (n - i) \<le> length rows \<and>
      candle_markets [] = replicate (n - i) (smb @ ''-EUR'')"
    by (simp add: ret_def candle_markets_def)
  then show ?case by blast
next
  case (Suc k)
  then have i: "i < n" and k: "k = n - Suc i" by simp_all
  let ?request = "Call_candles (smb @ ''-EUR'') res
                     (begin_t - (int i + 1) * slice) (begin_t - int i * slice)"
  let ?answer = "candles (bitvavo c) (calls c) (smb @ ''-EUR'') res
                     (begin_t - (int i + 1) * slice) (begin_t - int i * slice)"
  have "20 * (w * 1000) \<le> (begin_t - int i * slice) - (begin_t - (int i + 1) * slice)"
    using assms(3) by (simp add: algebra_simps)
  with Suc.prems assms(2) have twenty: "20 \<le> length ?answer"
    unfolding bars_enough_def by blast
  have "bars_enough (bitvavo (sent c [?request]))" using Suc.prems by simp
  from Suc.hyps(1) [OF k this, of "rows @ ?answer"] obtain fetched new where
    rest: "for_acc [Suc i..<n] (rows @ ?answer) (request_candles smb res begin_t slice)
             (sent c [?request]) = (Inr fetched, sent (sent c [?request]) new)"
    and len: "length (rows @ ?answer) + 20 * (n - Suc i) \<le> length fetched"
    and mk: "candle_markets new = replicate (n - Suc i) (smb @ ''-EUR'')"
    by blast
  have "for_acc [i..<n] rows (request_candles smb res begin_t slice) c
          = (Inr fetched, sent c (?request # new))"
    using rest i by (simp add: upt_conv_Cons seq_def request_candles_sent)
  moreover have "length rows + 20 * (n - i) \<le> length fetched"
    using len twenty i by simp
  moreover have "candle_markets (?request # new) = replicate (n - i) (smb @ ''-EUR'')"
    using mk i by (simp add: candle_markets_def Suc_diff_Suc replicate_Suc [symmetric] del: replicate_Suc)
  ultimately show ?case by blast
qed

lemma init_rows_ok:
  assumes "map_of TIME_RESOLUTIONS res = Some w"
  shows "\<exists>cs. OHLCVCandles_init smb (map c_time rows) res (map c_open rows) (map c_high rows)
                 (map c_low rows) (map c_close rows) (map c_volume rows) ''newer-to-older''
               = Inr cs \<and> close_positions cs = rev (map c_close rows) \<and>
               num_candles cs = length rows"
  using assms by (simp add: OHLCVCandles_init_def bnd_def Let_def)

lemma month_span: "map_of TIME_SPANS ''1m'' = Some 2592000"
  by (simp add: TIME_SPANS_def)

lemma get_candles_ok:
  assumes "quota_kept (bitvavo c)" and "bars_enough (bitvavo c)"
    and "map_of TIME_RESOLUTIONS res = Some w" and "smb \<in> set (available_symbols c)"
  shows "\<exists>cs new. get_candles smb res ''1m'' c = (Inr cs, sent c new) \<and>
           20 \<le> length (close_positions cs) \<and> 20 \<le> num_candles cs \<and>
           set (candle_markets new) = {smb @ ''-EUR''}"
proof -
  define begin_t where "begin_t = time (bitvavo c) (calls c)"
  define n where "n = \<lceil>real_of_int \<lceil>real_of_int 2592000 / real_of_int w\<rceil> / 1000\<rceil>"
  define total where
    "total = begin_t - py_int (real_of_int begin_t / 1000 - real_of_int 2592000) * 1000"
  have n_pos: "0 < n"
    unfolding n_def
    by (rule requests_positive [OF _ resolutions_positive [OF assms(3)]]) simp
  have wide: "20 * (w * 1000) \<le> total div n"
    unfolding total_def n_def by (rule slice_wide [OF assms(3)])
  have "bars_enough (bitvavo (sent c [Call_time]))" using assms(2) by simp
  from request_loop_ok [OF this assms(3) wide, of 0 "nat n" "[]" smb begin_t]
  obtain fetched new where
    loop: "for_acc [0..<nat n] [] (request_candles smb res begin_t (total div n))
             (sent c [Call_time]) = (Inr fetched, sent (sent c [Call_time]) new)"
    and len: "20 * nat n \<le> length fetched"
    and mk: "candle_markets new = replicate (nat n) (smb @ ''-EUR'')"
    by auto
  from init_rows_ok [OF assms(3), of smb fetched] obtain cs where
    made: "OHLCVCandles_init smb (map c_time fetched) res (map c_open fetched)
             (map c_high fetched) (map c_low fetched) (map c_close fetched)
             (map c_volume fetched) ''newer-to-older'' = Inr cs"
    and closes: "close_positions cs = rev (map c_close fetched)"
    and count: "num_candles cs = length fetched"
    by blast
  have nz: "n \<noteq> 0" using n_pos by simp
  have "get_candles smb res ''1m'' c = (Inr cs, sent c (Call_time # new))"
    using quota_kept_limit [OF assms(1)] assms(3,4) nz loop made
    unfolding n_def total_def begin_t_def
    by (simp add: get_candles_def limit_api_calls_def month_span seq_def api_sent Let_def
        lift_def)
  moreover have twenty: "20 \<le> length fetched"
    using len n_pos by (cases "nat n") simp_all
  then have "20 \<le> length (close_positions cs)" "20 \<le> num_candles cs"
    using closes count by simp_all
  moreover have "set (candle_markets (Call_time # new)) = {smb @ ''-EUR''}"
    using mk n_pos by (auto simp: candle_markets_def)
  ultimately show ?thesis by blast
qed

lemma order_outcome_ok:
  assumes "\<And>quote. response \<noteq> Order_filled 0 quote"
  shows "\<exists>outcome. order_outcome response c = (Inr outcome, c)"
  using assms by (cases response) (auto simp: order_outcome_def ret_def raise_def)

lemma live_sell_ok:
  assumes "quota_kept (bitvavo c)" and "fills_not_empty (bitvavo c)"
    and "smb \<in> set (available_symbols c)"
  shows "\<exists>outcome new. live_sell smb c = (Inr outcome, sent c new) \<and> candle_markets new = []"
proof -
  from get_symbol_owned_amount_ok [OF quota_kept_limit [OF assms(1)] assms(3)]
  obtain amount where a: "get_symbol_owned_amount smb c = (Inr amount, sent c [Call_balance])"
    by blast
  let ?c1 = "sent c [Call_balance]"
  let ?order = "Call_placeOrder (smb @ ''-EUR'') ''sell'' amount"
  let ?response = "placeOrder (bitvavo ?c1) (calls ?c1) (smb @ ''-EUR'') ''sell'' amount"
  have q1: "quota_kept (bitvavo ?c1)" using assms(1) by simp
  have s: "sell smb amount ?c1 = (Inr ?response, sent ?c1 [?order])"
    by (rule sell_ok [OF quota_kept_limit [OF q1]])
  have "\<And>quote. ?response \<noteq> Order_filled 0 quote"
    using assms(2) unfolding fills_not_empty_def by simp
  from order_outcome_ok [OF this, of "sent ?c1 [?order]"] obtain outcome where
    d: "order_outcome ?response (sent ?c1 [?order]) = (Inr outcome, sent ?c1 [?order])"
    by blast
  have "live_sell smb c = (Inr outcome, sent c [Call_balance, ?order])"
    using a s d by (simp add: live_sell_def seq_def)
  moreover have "candle_markets [Call_balance, ?order] = []"
    by (simp add: candle_markets_def)
  ultimately show ?thesis by blast
qed

lemma plot_macd_analysis_ok:
  assumes "col_macd df = Some cols" and "20 \<le> num_candles cs"
  shows "plot_macd_analysis plt_savefig cs df (Some path) = plt_savefig path"
proof -
  from assms(2) have "num_candles cs div 20 \<noteq> 0" by simp
  with assms(1) show ?thesis by (simp add: plot_macd_analysis_def)
qed

lemma review_position_ok:
  assumes "quota_kept (bitvavo c)" and "bars_enough (bitvavo c)"
    and "fills_not_empty (bitvavo c)" and "plots_saved host"
    and "map_of TIME_RESOLUTIONS res = Some w"
    and "1 \<le> p_short" "1 \<le> p_long" "1 \<le> p_signal"
    and "os \<in> set (available_symbols c)"
  shows "\<exists>new. review_position host (res, p_short, p_long, p_signal) os c
                 = (Inr (), sent c new) \<and>
               set (candle_markets new) = {os @ ''-EUR''}"
proof -
  from get_candles_ok [OF assms(1,2,5,9)] obtain cs new where
    fetched: "get_candles os res ''1m'' c = (Inr cs, sent c new)"
    and twenty: "20 \<le> length (close_positions cs)"
    and count: "20 \<le> num_candles cs"
    and mk: "set (candle_markets new) = {os @ ''-EUR''}"
    by blast
  from macd_indicator_ok [OF assms(6,7,8), of cs] obtain df cols where
    ind: "macd_indicator (From_candles cs) p_short p_long p_signal = Inr df"
    and cols: "col_macd df = Some cols"
    and l1: "length (macd_line cols) = length (close_positions cs)"
    and l2: "length (macd_signal_line cols) = length (close_positions cs)"
    by blast
  from macd_signal_frame_ok [OF cols, of default_periods] twenty l1 l2 obtain verdict where
    sig: "macd_signal (From_frame df) default_periods = Inr verdict"
    by auto
  have plot: "plot_macd_analysis (savefig host h) cs df (Some path) = Inr ()" for h path
    using plot_macd_analysis_ok [OF cols count, of "savefig host h" path] assms(4)
    by (simp add: plots_saved_def)
  let ?c1 = "sent c new"
  show ?thesis
  proof (cases "verdict = SELL")
    case True
    have "quota_kept (bitvavo ?c1)" "fills_not_empty (bitvavo ?c1)"
      "os \<in> set (available_symbols ?c1)"
      using assms by simp_all
    from live_sell_ok [OF this] obtain outcome new2 where
      sold: "live_sell os ?c1 = (Inr outcome, sent ?c1 new2)" and none: "candle_markets new2 = []"
      by blast
    have "review_position host (res, p_short, p_long, p_signal) os c
            = (Inr (), sent c (new @ new2))"
      using fetched ind sig True sold
      by (simp add: review_position_def seq_def lift_def ret_def plot)
    moreover have "set (candle_markets (new @ new2)) = {os @ ''-EUR''}"
      using mk none by (simp add: candle_markets_def)
    ultimately show ?thesis by blast
  next
    case False
    have "review_position host (res, p_short, p_long, p_signal) os c = (Inr (), sent c new)"
      using fetched ind sig False
      by (simp add: review_position_def seq_def lift_def ret_def plot)
    with mk show ?thesis by blast
  qed
qed

lemma review_loop:
  assumes "quota_kept (bitvavo c)" and "bars_enough (bitvavo c)"
    and "fills_not_empty (bitvavo c)" and "plots_saved host"
    and "map_of TIME_RESOLUTIONS res = Some w"
    and "1 \<le> p_short" "1 \<le> p_long" "1 \<le> p_signal"
    and "set xs \<subseteq> set (available_symbols c)"
  shows "\<exists>new. for_each xs (review_position host (res, p_short, p_long, p_signal)) c
                 = (Inr (), sent c new) \<and>
               set (candle_markets new) = (\<lambda>s. s @ ''-EUR'') ` set xs"
  using assms(1,2,3,9)
proof (induction xs arbitrary: c)
  case Nil
  have "for_each [] (review_position host (res, p_short, p_long, p_signal)) c
          = (Inr (), sent c []) \<and>
        set (candle_markets []) = (\<lambda>s. s @ ''-EUR'') ` set []"
    by (simp add: ret_def candle_markets_def)
  then show ?case by blast
next
  case (Cons x xs)
  from Cons.prems have x: "x \<in> set (available_symbols c)" by simp
  from review_position_ok [OF Cons.prems(1,2,3) assms(4,5,6,7,8) x] obtain new where
    one: "review_position host (res, p_short, p_long, p_signal) x c = (Inr (), sent c new)"
    and mk: "set (candle_markets new) = {x @ ''-EUR''}"
    by blast
  have "quota_kept (bitvavo (sent c new))" "bars_enough (bitvavo (sent c new))"
    "fills_not_empty (bitvavo (sent c new))" "set xs \<subseteq> set (available_symbols (sent c new))"
    using Cons.prems by simp_all
  from Cons.IH [OF this] obtain new2 where
    rest: "for_each xs (review_position host (res, p_short, p_long, p_signal)) (sent c new)
             = (Inr (), sent (sent c new) new2)"
    and mk2: "set (candle_markets new2) = (\<lambda>s. s @ ''-EUR'') ` set xs"
    by blast
  have "for_each (x # xs) (review_position host (res, p_short, p_long, p_signal)) c
          = (Inr (), sent c (new @ new2))"
    using one rest by (simp add: seq_def)
  moreover have "set (candle_markets (new @ new2)) = (\<lambda>s. s @ ''-EUR'') ` set (x # xs)"
    using mk mk2 by (simp add: candle_markets_def)
  ultimately show ?case by blast
qed

subsection \<open>Failures while the owned symbols are processed\<close>

text \<open>
  Claim C3, as stated, on a client that owns AAA and BTC where the exchange has no market
  for AAA: both \<^verbatim>\<open>panic\<close> and the position review raise
  \<^verbatim>\<open>CoinbotUnexpectedValueError\<close> at AAA, the first symbol, having sent only the
  request for the balance. Nothing catches the error, so BTC is neither sold nor
  reviewed.
\<close>

theorem symbol_loops_abort_on_error:
  "fst (get_owned_symbols stranded_client) = Inr [''AAA'', ''BTC''] \<and>
   panic stranded_client
     = (Inl CoinbotUnexpectedValueError, sent stranded_client [Call_balance]) \<and>
   analyse_existing_positions saving_host (''8h'', 12, 39, 9) stranded_client
     = (Inl CoinbotUnexpectedValueError, sent stranded_client [Call_balance]) \<and>
   sold_markets [Call_balance] = [] \<and> candle_markets [Call_balance] = []"
  by (simp add: stranded_client_def market_stub_def holding_def get_owned_symbols_def panic_def
      analyse_existing_positions_def review_position_def get_candles_def
      get_symbol_owned_amount_def limit_api_calls_def get_remaining_limit_def seq_def api_def
      ret_def raise_def sent_def sold_markets_def candle_markets_def TIME_RESOLUTIONS_def
      TIME_SPANS_def)

text \<open>
  Claim C3, amended. What one symbol cannot stop is an order that the exchange rejects:
  its answer is a value, not an error raised. If no call raises (the quota stays at 100
  or more, every owned symbol is among the available ones, the resolution and the
  periods are valid, every window of at least twenty bars is answered with at least
  twenty bars, no order is reported filled with an amount of 0, and every figure of the
  review is saved), then whatever the exchange answers to the orders, \<^verbatim>\<open>panic\<close> sends
  a sell order for every owned symbol, in order, and the position review returns and has
  requested the bars of every owned symbol. An error raised for one symbol ends the
  loop, as the counterexample shows.
\<close>

theorem rejected_orders_do_not_abort:
  assumes "quota_kept (bitvavo c)"
    and "set (owned_of (balance (bitvavo c) (calls c))) \<subseteq> set (available_symbols c)"
    and "bars_enough (bitvavo c)" and "fills_not_empty (bitvavo c)"
    and "plots_saved host"
    and "map_of TIME_RESOLUTIONS res = Some w"
    and "1 \<le> p_short" and "1 \<le> p_long" and "1 \<le> p_signal"
  shows "(\<exists>new. panic c = (Inr (), sent c new) \<and>
                sold_markets new
                  = map (\<lambda>s. s @ ''-EUR'') (owned_of (balance (bitvavo c) (calls c)))) \<and>
         (\<exists>new. analyse_existing_positions host (res, p_short, p_long, p_signal) c
                  = (Inr (), sent c new) \<and>
                set (candle_markets new)
                  = (\<lambda>s. s @ ''-EUR'') ` set (owned_of (balance (bitvavo c) (calls c))))"
proof
  show "\<exists>new. panic c = (Inr (), sent c new) \<and>
          sold_markets new = map (\<lambda>s. s @ ''-EUR'') (owned_of (balance (bitvavo c) (calls c)))"
    by (rule panic_sells_all [OF assms(1,2)])
next
  let ?owned = "owned_of (balance (bitvavo c) (calls c))"
  let ?c1 = "sent c [Call_balance]"
  have "quota_kept (bitvavo ?c1)" "bars_enough (bitvavo ?c1)" "fills_not_empty (bitvavo ?c1)"
    "set ?owned \<subseteq> set (available_symbols ?c1)"
    using assms by simp_all
  from review_loop [OF this(1,2,3) assms(5,6,7,8,9) this(4)] obtain new where
    loop: "for_each ?owned (review_position host (res, p_short, p_long, p_signal)) ?c1
             = (Inr (), sent ?c1 new)"
    and mk: "set (candle_markets new) = (\<lambda>s. s @ ''-EUR'') ` set ?owned"
    by blast
  have "analyse_existing_positions host (res, p_short, p_long, p_signal) c
          = (Inr (), sent c (Call_balance # new))"
    using quota_kept_limit [OF assms(1)] loop
    by (simp add: analyse_existing_positions_def seq_def get_owned_symbols_ok)
  moreover have "set (candle_markets (Call_balance # new)) = (\<lambda>s. s @ ''-EUR'') ` set ?owned"
    using mk by (simp add: candle_markets_def)
  ultimately show "\<exists>new. analyse_existing_positions host (res, p_short, p_long, p_signal) c
                  = (Inr (), sent c new) \<and>
                set (candle_markets new) = (\<lambda>s. s @ ''-EUR'') ` set ?owned"
    by blast
qed

text \<open>
  The theorem at a client that holds BTC and ETH on an exchange that rejects every order
  and has 90 bars for each market, on a machine that saves every figure.
\<close>

theorem rejected_orders_do_not_abort_witness:
  "placeOrder (bitvavo rejecting_client) [] ''BTC-EUR'' ''sell'' 1
     = Order_error ''insufficient balance'' \<and>
   (\<exists>new. panic rejecting_client = (Inr (), sent rejecting_client new) \<and>
          sold_markets new = [''BTC-EUR'', ''ETH-EUR'']) \<and>
   (\<exists>new. analyse_existing_positions saving_host (''8h'', 12, 39, 9) rejecting_client
            = (Inr (), sent rejecting_client new) \<and>
          set (candle_markets new) = {''BTC-EUR'', ''ETH-EUR''})"
proof -
  have q: "quota_kept (bitvavo rejecting_client)"
    by (simp add: quota_kept_def rejecting_client_def market_stub_def)
  have o: "owned_of (balance (bitvavo rejecting_client) (calls rejecting_client))
             = [''BTC'', ''ETH'']"
    by (simp add: owned_of_def rejecting_client_def market_stub_def holding_def)
  have k: "set (owned_of (balance (bitvavo rejecting_client) (calls rejecting_client)))
             \<subseteq> set (available_symbols rejecting_client)"
    unfolding o by (simp add: rejecting_client_def)
  have b: "bars_enough (bitvavo rejecting_client)"
    by (simp add: bars_enough_def rejecting_client_def market_stub_def steady_bars_def)
  have f: "fills_not_empty (bitvavo rejecting_client)"
    by (simp add: fills_not_empty_def rejecting_client_def market_stub_def reject_orders_def)
  have p: "plots_saved saving_host"
    by (simp add: plots_saved_def saving_host_def)
  have r: "map_of TIME_RESOLUTIONS ''8h'' = Some (8 * 60 * 60)"
    by (simp add: TIME_RESOLUTIONS_def)
  have e: "placeOrder (bitvavo rejecting_client) [] ''BTC-EUR'' ''sell'' 1
     = Order_error ''insufficient balance''"
    by (simp add: rejecting_client_def market_stub_def reject_orders_def)
  from rejected_orders_do_not_abort [OF q k b f p r, of 12 39 9] e show ?thesis
    unfolding o by simp
qed

subsection \<open>The plot that ends each review\<close>

text \<open>
  Two more runs of the position review in which an error raised for the first symbol
  ends the loop. On the exchange that has four bars for each market the bars of BTC are
  fetched, the signal is SELL, the order is rejected, and the plot raises
  \<^verbatim>\<open>ZeroDivisionError\<close> because the spacing of its tick labels is \<open>4 div 20 = 0\<close>. On
  the exchange that has 90 bars, on a machine without the directory of the plots, the
  saving of the figure raises. In both runs the bars of ETH are never requested.
\<close>

lemma short_bars:
  "get_candles ''BTC'' ''8h'' ''1m'' (sent short_client [Call_balance])
     = (Inr short_series,
        sent short_client [Call_balance, Call_time,
          Call_candles ''BTC-EUR'' ''8h'' 1697408000000 1700000000000])"
  by (simp add: short_client_def market_stub_def get_candles_def limit_api_calls_def
      get_remaining_limit_def seq_def api_def ret_def raise_def lift_def sent_def
      TIME_RESOLUTIONS_def TIME_SPANS_def py_int_def Let_def request_candles_def
      OHLCVCandles_init_def bnd_def four_bars_def short_series_def)

lemma short_signal:
  "\<exists>df cols. macd_indicator (From_candles short_series) 12 39 9 = Inr df \<and>
     col_macd df = Some cols \<and>
     macd_signal (From_frame df) default_periods = Inr SELL"
  by (simp add: short_series_def macd_indicator_def ewm_mean_def bnd_def Let_def
      as_dataframe_def macd_signal_def macd_hist_action_def momentum_building_def
      momentum_decreasing_def py_index_def)

lemma short_history_stops_review:
  "\<exists>new. analyse_existing_positions saving_host (''8h'', 12, 39, 9) short_client
           = (Inl ZeroDivisionError, sent short_client new) \<and>
         candle_markets new = [''BTC-EUR'']"
proof -
  let ?c1 = "sent short_client [Call_balance]"
  let ?bars = "[Call_time, Call_candles ''BTC-EUR'' ''8h'' 1697408000000 1700000000000]"
  let ?c2 = "sent ?c1 ?bars"
  have q: "quota_kept (bitvavo short_client)"
    by (simp add: quota_kept_def short_client_def market_stub_def)
  have f: "fills_not_empty (bitvavo short_client)"
    by (simp add: fills_not_empty_def short_client_def market_stub_def reject_orders_def)
  have "owned_of (balance (bitvavo short_client) (calls short_client)) = [''BTC'', ''ETH'']"
    by (simp add: owned_of_def short_client_def market_stub_def holding_def)
  with get_owned_symbols_ok [OF quota_kept_limit [OF q]]
  have owned: "get_owned_symbols short_client = (Inr [''BTC'', ''ETH''], ?c1)"
    by simp
  have bars: "get_candles ''BTC'' ''8h'' ''1m'' ?c1 = (Inr short_series, ?c2)"
    using short_bars by simp
  from short_signal obtain df cols where
    ind: "macd_indicator (From_candles short_series) 12 39 9 = Inr df"
    and cols: "col_macd df = Some cols"
    and sig: "macd_signal (From_frame df) default_periods = Inr SELL"
    by blast
  have "quota_kept (bitvavo ?c2)" "fills_not_empty (bitvavo ?c2)"
    "''BTC'' \<in> set (available_symbols ?c2)"
    using q f by (simp_all add: short_client_def)
  from live_sell_ok [OF this] obtain outcome orders where
    sold: "live_sell ''BTC'' ?c2 = (Inr outcome, sent ?c2 orders)"
    and none: "candle_markets orders = []"
    by blast
  have plot: "plot_macd_analysis plt_savefig short_series df (Some path) = Inl ZeroDivisionError"
    for plt_savefig path
    using cols by (simp add: plot_macd_analysis_def short_series_def)
  have "review_position saving_host (''8h'', 12, 39, 9) ''BTC'' ?c1
          = (Inl ZeroDivisionError, sent ?c2 orders)"
    using bars ind sig sold by (simp add: review_position_def seq_def lift_def ret_def plot)
  with owned have "analyse_existing_positions saving_host (''8h'', 12, 39, 9) short_client
          = (Inl ZeroDivisionError, sent short_client (Call_balance # ?bars @ orders))"
    by (simp add: analyse_existing_positions_def seq_def)
  moreover have "candle_markets (Call_balance # ?bars @ orders) = [''BTC-EUR'']"
    using none by (simp add: candle_markets_def)
  ultimately show ?thesis by blast
qed

lemma missing_directory_stops_review:
  "\<exists>new. analyse_existing_positions bare_host (''8h'', 12, 39, 9) rejecting_client
           = (Inl FileNotFoundError, sent rejecting_client new) \<and>
         set (candle_markets new) = {''BTC-EUR''}"
proof -
  let ?c1 = "sent rejecting_client [Call_balance]"
  have q: "quota_kept (bitvavo rejecting_client)"
    by (simp add: quota_kept_def rejecting_client_def market_stub_def)
  have b: "bars_enough (bitvavo rejecting_client)"
    by (simp add: bars_enough_def rejecting_client_def market_stub_def steady_bars_def)
  have f: "fills_not_empty (bitvavo rejecting_client)"
    by (simp add: fills_not_empty_def rejecting_client_def market_stub_def reject_orders_def)
  have r: "map_of TIME_RESOLUTIONS ''8h'' = Some (8 * 60 * 60)"
    by (simp add: TIME_RESOLUTIONS_def)
  have "owned_of (balance (bitvavo rejecting_client) (calls rejecting_client))
          = [''BTC'', ''ETH'']"
    by (simp add: owned_of_def rejecting_client_def market_stub_def holding_def)
  with get_owned_symbols_ok [OF quota_kept_limit [OF q]]
  have owned: "get_owned_symbols rejecting_client = (Inr [''BTC'', ''ETH''], ?c1)"
    by simp
  have "quota_kept (bitvavo ?c1)" "bars_enough (bitvavo ?c1)"
    "''BTC'' \<in> set (available_symbols ?c1)"
    using q b by (simp_all add: rejecting_client_def)
  from get_candles_ok [OF this(1,2) r this(3)] obtain cs new where
    fetched: "get_candles ''BTC'' ''8h'' ''1m'' ?c1 = (Inr cs, sent ?c1 new)"
    and twenty: "20 \<le> length (close_positions cs)"
    and count: "20 \<le> num_candles cs"
    and mk: "set (candle_markets new) = {''BTC'' @ ''-EUR''}"
    by blast
  from macd_indicator_ok [of 12 39 9 cs] obtain df cols where
    ind: "macd_indicator (From_candles cs) 12 39 9 = Inr df"
    and cols: "col_macd df = Some cols"
    and l1: "length (macd_line cols) = length (close_positions cs)"
    and l2: "length (macd_signal_line cols) = length (close_positions cs)"
    by auto
  from macd_signal_frame_ok [OF cols, of default_periods] twenty l1 l2 obtain verdict where
    sig: "macd_signal (From_frame df) default_periods = Inr verdict"
    by auto
  have plot: "plot_macd_analysis (savefig bare_host h) cs df (Some path) = Inl FileNotFoundError"
    for h path
    using plot_macd_analysis_ok [OF cols count, of "savefig bare_host h" path]
    by (simp add: bare_host_def)
  let ?c2 = "sent ?c1 new"
  have "\<exists>orders. review_position bare_host (''8h'', 12, 39, 9) ''BTC'' ?c1
                    = (Inl FileNotFoundError, sent ?c2 orders) \<and> candle_markets orders = []"
  proof (cases "verdict = SELL")
    case True
    have "quota_kept (bitvavo ?c2)" "fills_not_empty (bitvavo ?c2)"
      "''BTC'' \<in> set (available_symbols ?c2)"
      using q f by (simp_all add: rejecting_client_def)
    from live_sell_ok [OF this] obtain outcome orders where
      sold: "live_sell ''BTC'' ?c2 = (Inr outcome, sent ?c2 orders)"
      and none: "candle_markets orders = []"
      by blast
    have "review_position bare_host (''8h'', 12, 39, 9) ''BTC'' ?c1
            = (Inl FileNotFoundError, sent ?c2 orders)"
      using fetched ind sig True sold
      by (simp add: review_position_def seq_def lift_def ret_def plot)
    with none show ?thesis by blast
  next
    case False
    have "review_position bare_host (''8h'', 12, 39, 9) ''BTC'' ?c1
            = (Inl FileNotFoundError, sent ?c2 []) \<and> candle_markets [] = []"
      using fetched ind sig False
      by (simp add: review_position_def seq_def lift_def ret_def plot candle_markets_def)
    then show ?thesis by blast
  qed
  then obtain orders where
    one: "review_position bare_host (''8h'', 12, 39, 9) ''BTC'' ?c1
            = (Inl FileNotFoundError, sent ?c2 orders)"
    and none: "candle_markets orders = []"
    by blast
  with owned have "analyse_existing_positions bare_host (''8h'', 12, 39, 9) rejecting_client
          = (Inl FileNotFoundError, sent rejecting_client (Call_balance # new @ orders))"
    by (simp add: analyse_existing_positions_def seq_def)
  moreover have "set (candle_markets (Call_balance # new @ orders)) = {''BTC-EUR''}"
    using mk none by (simp add: candle_markets_def)
  ultimately show ?thesis by blast
qed

subsection \<open>The MACD of a flat series that ends with a rise\<close>

lemma geo_step: "geo q (Suc m) = 1 + q * geo q m"
  unfolding geo_def
  by (simp add: sum.lessThan_Suc_shift sum_distrib_left del: sum.lessThan_Suc)

lemma geo_nonneg: "0 \<le> q \<Longrightarrow> 0 \<le> geo q m"
  unfolding geo_def by (simp add: sum_nonneg)

lemma geo_ge_one: "0 \<le> q \<Longrightarrow> 1 \<le> geo q (Suc m)"
  using geo_nonneg [of q m] by (simp add: geo_step)

lemma geo_zero [simp]: "geo q 0 = 0"
  by (simp add: geo_def)

lemma geo_strict:
  assumes "0 \<le> q" "q < r" "2 \<le> m"
  shows "geo q m < geo r m"
proof -
  from assms(3) obtain k where m: "m = Suc (Suc k)"
    by (metis Suc_leD add_2_eq_Suc le_Suc_ex)
  have "geo q (Suc k) \<le> geo r (Suc k)"
    unfolding geo_def using assms by (intro sum_mono power_mono) simp_all
  moreover have "q ^ Suc k < r ^ Suc k"
    using assms by (intro power_strict_mono) simp_all
  ultimately show ?thesis unfolding m geo_def by simp
qed

lemma ewm_flat_then:
  assumes "0 \<le> q"
  shows "ewm_from q (c * geo q k) (geo q k) (replicate n c @ [x])
           = replicate n c @ [c + (x - c) / geo q (Suc (k + n))]"
proof (induction n arbitrary: k)
  case 0
  have pos: "geo q (Suc k) \<noteq> 0" using geo_ge_one [OF assms, of k] by simp
  have "(x + q * (c * geo q k)) / geo q (Suc k) = c + (x - c) / geo q (Suc k)"
    using pos by (simp add: field_simps geo_step)
  then show ?case by (simp add: geo_step)
next
  case (Suc n)
  have pos: "1 + q * geo q k \<noteq> 0" using geo_ge_one [OF assms, of k] by (simp add: geo_step)
  have head: "(c + q * (c * geo q k)) / (1 + q * geo q k) = c"
    using pos by (simp add: field_simps)
  have acc: "c + q * (c * geo q k) = c * (1 + q * geo q k)"
    by (simp add: algebra_simps)
  from Suc.IH [of "Suc k"] pos show ?case
    by (simp add: acc geo_step)
qed

lemma ewm_flat_then_start:
  assumes "0 \<le> q"
  shows "ewm_from q 0 0 (replicate n c @ [x]) = replicate n c @ [c + (x - c) / geo q (Suc n)]"
  using ewm_flat_then [OF assms, of c 0 n x] by simp

lemma py_index_last3:
  "py_index (pre @ [h3, h2, h1]) (- 1) = Inr h1"
  "py_index (pre @ [h3, h2, h1]) (- 2) = Inr h2"
  "py_index (pre @ [h3, h2, h1]) (- 3) = Inr h3"
  by (simp_all add: py_index_def nth_append nat_add_distrib)

lemma macd_hist_action_buy:
  assumes "0 < h1" "h2 \<le> h1" "h3 \<le> h2"
  shows "macd_hist_action (pre @ [h3, h2, h1]) = Inr BUY"
  using assms
  by (simp add: macd_hist_action_def momentum_building_def bnd_def py_index_last3)

lemma replicate_two_more: "2 \<le> n \<Longrightarrow> replicate n x = replicate (n - 2) x @ [x, x]"
proof -
  assume "2 \<le> n"
  then obtain k where n: "n = k + 2" by (metis le_add_diff_inverse2)
  have "replicate (k + 2) x = replicate k x @ replicate 2 x" by (rule replicate_add)
  then show ?thesis unfolding n by (simp add: numeral_2_eq_2)
qed

lemma decay_nonneg: "1 \<le> p \<Longrightarrow> 0 \<le> decay p"
  by (simp add: decay_def field_simps)

lemma decay_pos: "2 \<le> p \<Longrightarrow> 0 < decay p"
  by (simp add: decay_def field_simps)

lemma decay_mono: "1 \<le> p \<Longrightarrow> p < r \<Longrightarrow> decay p < decay r"
  by (simp add: decay_def field_simps)

lemma macd_flat_then_rise:
  assumes "1 \<le> p_short" "p_short < p_long" "2 \<le> p_signal" "2 \<le> n" "0 < d"
    and "close_positions cs = replicate n c @ [c + d]"
  shows "\<exists>df cols strength.
           macd_indicator (From_candles cs) p_short p_long p_signal = Inr df \<and>
           col_macd df = Some cols \<and>
           macd_signal (From_frame df) kwargs = Inr BUY \<and>
           tail_item (map2 (-) (macd_line cols) (macd_signal_line cols)) = Inr strength"
proof -
  let ?qf = "decay p_short" and ?ql = "decay p_long" and ?qg = "decay p_signal"
  let ?Gf = "geo ?qf (Suc n)" and ?Gl = "geo ?ql (Suc n)" and ?Gg = "geo ?qg (Suc n)"
  have pl: "1 \<le> p_long" using assms(1,2) by simp
  have pg: "1 \<le> p_signal" using assms(3) by simp
  have qf: "0 \<le> ?qf" by (rule decay_nonneg [OF assms(1)])
  have ql: "0 \<le> ?ql" by (rule decay_nonneg [OF pl])
  have qg: "0 < ?qg" by (rule decay_pos [OF assms(3)])
  have Gf: "1 \<le> ?Gf" by (rule geo_ge_one [OF qf])
  have Gfl: "?Gf < ?Gl"
    by (rule geo_strict [OF qf decay_mono [OF assms(1,2)]]) (use assms(4) in simp)
  have "1 \<le> geo ?qg n"
    using geo_ge_one [of ?qg "n - 1"] qg assms(4) by (cases n) simp_all
  then have "0 < ?qg * geo ?qg n" using qg by (simp add: mult_pos_pos)
  then have Gg: "1 < ?Gg" by (simp add: geo_step)
  define L where "L = d / ?Gf - d / ?Gl"
  have L: "0 < L"
  proof -
    have "d / ?Gl < d / ?Gf"
      using assms(5) Gf Gfl by (intro divide_strict_left_mono) (simp_all add: mult_pos_pos)
    then show ?thesis by (simp add: L_def)
  qed
  define h where "h = L - L / ?Gg"
  have h: "0 < h"
  proof -
    have "L / ?Gg < L" using L Gg by (simp add: field_simps)
    then show ?thesis by (simp add: h_def)
  qed
  have fast: "ewm_from ?qf 0 0 (close_positions cs) = replicate n c @ [c + d / ?Gf]"
    unfolding assms(6) using ewm_flat_then_start [OF qf, of n c "c + d"] by simp
  have slow: "ewm_from ?ql 0 0 (close_positions cs) = replicate n c @ [c + d / ?Gl]"
    unfolding assms(6) using ewm_flat_then_start [OF ql, of n c "c + d"] by simp
  have line: "map2 (-) (replicate n c @ [c + d / ?Gf]) (replicate n c @ [c + d / ?Gl])
                = replicate n 0 @ [L]"
    by (simp add: L_def zip_replicate map_replicate_const [symmetric] del: map_replicate_const)
  have signal: "ewm_from ?qg 0 0 (replicate n 0 @ [L]) = replicate n 0 @ [L / ?Gg]"
    using ewm_flat_then_start [of ?qg n 0 L] qg by simp
  have hist: "map2 (-) (replicate n 0 @ [L]) (replicate n 0 @ [L / ?Gg]) = replicate n 0 @ [h]"
    by (simp add: h_def zip_replicate)
  let ?cols = "\<lparr> ema_fast = replicate n c @ [c + d / ?Gf], ema_slow = replicate n c @ [c + d / ?Gl],
                 macd_line = replicate n 0 @ [L], macd_signal_line = replicate n 0 @ [L / ?Gg] \<rparr>"
  let ?df = "(as_dataframe cs)\<lparr>col_macd := Some ?cols\<rparr>"
  have ind: "macd_indicator (From_candles cs) p_short p_long p_signal = Inr ?df"
    using assms(1) pl pg
    by (simp add: macd_indicator_def ewm_mean_def bnd_def Let_def decay_def [symmetric]
        fast slow line signal [unfolded L_def] L_def)
  have buy: "macd_hist_action (replicate n 0 @ [h]) = Inr BUY"
    using macd_hist_action_buy [of h 0 0 "replicate (n - 2) 0"] h
      replicate_two_more [OF assms(4), of "0::real"]
    by simp
  have "macd_signal (From_frame ?df) kwargs = Inr BUY"
    by (simp add: macd_signal_def bnd_def hist [unfolded h_def] buy [unfolded h_def])
  moreover have "tail_item (map2 (-) (macd_line ?cols) (macd_signal_line ?cols)) = Inr h"
    by (simp add: hist [unfolded h_def] h_def tail_item_def)
  ultimately show ?thesis using ind by auto
qed

subsection \<open>Opening new positions\<close>





lemma examine_skip_growth:
  assumes "get_symbol_24h_percentual_change smb c = (Inr growth, c1)" and "growth \<le> 0"
  shows "examine_symbol volume_limit (res, p_short, p_long, p_signal) smb dict c = (Inr dict, c1)"
  using assms by (simp add: examine_symbol_def seq_def ret_def)

lemma examine_skip_count:
  assumes "get_symbol_24h_percentual_change smb c = (Inr growth, c1)" and "0 < growth"
    and "get_symbol_24h_volume smb c1 = (Inr volume, c2)" and "volume_limit \<le> volume"
    and "get_candles smb res ''1m'' c2 = (Inr cs, c3)" and "length (timestamps cs) \<noteq> 90"
  shows "examine_symbol volume_limit (res, p_short, p_long, p_signal) smb dict c = (Inr dict, c3)"
  using assms by (simp add: examine_symbol_def seq_def ret_def)


lemma stub_limit:
  "bitvavo c = market_stub ms bal tick bars ord \<Longrightarrow> \<not> get_remaining_limit c < 100"
  by (simp add: get_remaining_limit_def market_stub_def)

lemma stub_change:
  assumes "bitvavo c = market_stub ms bal tick bars ord"
    and "smb \<in> set (available_symbols c)" and "smb \<noteq> ''EUR''"
    and "tick (upper smb @ ''-EUR'') = ticker_of opened latest quote_volume"
    and "opened \<noteq> 0"
  shows "get_symbol_24h_percentual_change smb c
           = (Inr ((latest - opened) / opened * 100), sent c [Call_ticker24h (upper smb @ ''-EUR'')])"
  using assms stub_limit [OF assms(1)]
  by (simp add: get_symbol_24h_percentual_change_def limit_api_calls_def seq_def api_sent
      ret_def market_stub_def ticker_of_def)

lemma stub_volume:
  assumes "bitvavo c = market_stub ms bal tick bars ord"
    and "smb \<in> set (available_symbols c)" and "smb \<noteq> ''EUR''"
    and "tick (upper smb @ ''-EUR'') = ticker_of opened latest quote_volume"
  shows "get_symbol_24h_volume smb c
           = (Inr quote_volume, sent c [Call_ticker24h (upper smb @ ''-EUR'')])"
  using assms stub_limit [OF assms(1)]
  by (simp add: get_symbol_24h_volume_def limit_api_calls_def seq_def api_sent
      ret_def market_stub_def ticker_of_def)

lemma stub_candles:
  assumes "bitvavo c = market_stub ms bal tick (flat_then_up n) ord"
    and "smb \<in> set (available_symbols c)"
    and "map_of TIME_RESOLUTIONS res = Some w"
    and "\<lceil>real_of_int \<lceil>2592000 / real_of_int w\<rceil> / 1000\<rceil> = 1"
  shows "\<exists>cs new. get_candles smb res ''1m'' c = (Inr cs, sent c new) \<and>
           close_positions cs = replicate n 100 @ [101] \<and>
           length (timestamps cs) = Suc n"
proof -
  define begin_t where "begin_t = time (bitvavo c) (calls c)"
  define total where "total = begin_t - py_int (real_of_int begin_t / 1000 - 2592000) * 1000"
  let ?request = "Call_candles (smb @ ''-EUR'') res (begin_t - total) begin_t"
  let ?rows = "flat_then_up n (smb @ ''-EUR'') res (begin_t - total) begin_t"
  have rows: "map c_close ?rows = 101 # replicate n 100" "length ?rows = Suc n"
    by (simp_all add: flat_then_up_def o_def map_replicate_const)
  from init_rows_ok [OF assms(3), of smb ?rows] obtain cs where
    made: "OHLCVCandles_init smb (map c_time ?rows) res (map c_open ?rows) (map c_high ?rows)
             (map c_low ?rows) (map c_close ?rows) (map c_volume ?rows) ''newer-to-older''
           = Inr cs"
    and closes: "close_positions cs = rev (map c_close ?rows)"
    by blast
  from init_newer_to_older [OF made] have stamps: "timestamps cs = rev (map c_time ?rows)"
    by simp
  have "get_candles smb res ''1m'' c = (Inr cs, sent c [Call_time, ?request])"
    using assms stub_limit [OF assms(1)] made
    unfolding total_def begin_t_def
    by (simp add: get_candles_def limit_api_calls_def month_span seq_def api_sent Let_def
        lift_def ret_def request_candles_def market_stub_def)
  moreover have "close_positions cs = replicate n 100 @ [101]"
    unfolding closes rows by simp
  moreover have "length (timestamps cs) = Suc n"
    unfolding stamps using rows(2) by simp
  ultimately show ?thesis by blast
qed

lemma upper_capitals [simp]:
  "upper ''ADA'' = ''ADA''" "upper ''BTC'' = ''BTC''" "upper ''ETH'' = ''ETH''"
  by (simp_all add: upper_def upper_char_def)


lemma one_day: "map_of TIME_RESOLUTIONS ''1d'' = Some 86400"
  by (simp add: TIME_RESOLUTIONS_def)

lemma stub_symbols:
  assumes "bitvavo c = market_stub ms bal tick bars ord"
  shows "get_available_symbols c
           = (Inr (sort (remdups (map (takeWhile (\<lambda>ch. ch \<noteq> CHR ''-'')) ms @ [''EUR'']))),
              sent c [Call_markets])"
  using stub_limit [OF assms] assms
  by (simp add: get_available_symbols_def limit_api_calls_def seq_def api_sent ret_def
      market_stub_def)

lemma stub_change_EUR:
  assumes "bitvavo c = market_stub ms bal tick bars ord" and "''EUR'' \<in> set (available_symbols c)"
  shows "get_symbol_24h_percentual_change ''EUR'' c = (Inr 0, c)"
  using stub_limit [OF assms(1)] assms(2)
  by (simp add: get_symbol_24h_percentual_change_def limit_api_calls_def ret_def)





subsection \<open>The scan of the symbols\<close>

text \<open>
  Claim C7, at a resolution other than eight hours. The scan runs with daily bars on an
  exchange where BTC meets all four conditions of the claim: its 24h change is 10
  percent, its 24h quote volume 500000 is above the floor of 250000, its month of daily
  bars is complete (30 bars, the ceiling of the span divided by the resolution), and its
  MACD signal on those bars is BUY. The scan records no symbol: it compares the number
  of bars with 90, the full count at eight hours only.
\<close>

theorem promising_symbol_missed:
  "\<exists>c1 c2 c3 cs df c'.
     get_symbol_24h_percentual_change ''BTC'' (sent daily_client [Call_markets]) = (Inr 10, c1) \<and>
     get_symbol_24h_volume ''BTC'' c1 = (Inr 500000, c2) \<and>
     get_candles ''BTC'' ''1d'' ''1m'' c2 = (Inr cs, c3) \<and>
     int (length (timestamps cs)) = \<lceil>(30 * 24 * 60 * 60) / (24 * 60 * 60 :: real)\<rceil> \<and>
     macd_indicator (From_candles cs) 12 39 9 = Inr df \<and>
     macd_signal (From_frame df) default_periods = Inr BUY \<and>
     get_promising_symbols 250000 (''1d'', 12, 39, 9) daily_client = (Inr [], c')"
proof -
  let ?tick = "\<lambda>market::string. ticker_of 100 110 500000"
  let ?c0 = "sent daily_client [Call_markets]"
  let ?t = "Call_ticker24h ''BTC-EUR''"
  have b: "bitvavo daily_client = market_stub [''BTC-EUR''] [holding ''EUR'' 1000] ?tick
             (flat_then_up 29) fill_orders"
    and a: "available_symbols daily_client = [''BTC'', ''EUR'']"
    by (simp_all add: daily_client_def)
  have symbols: "get_available_symbols daily_client = (Inr [''BTC'', ''EUR''], ?c0)"
    using stub_symbols [OF b] by simp
  have "get_symbol_24h_percentual_change ''BTC'' ?c0
          = (Inr ((110 - 100) / 100 * 100), sent ?c0 [Call_ticker24h (upper ''BTC'' @ ''-EUR'')])"
    by (rule stub_change [where tick = ?tick and quote_volume = 500000])
      (use b a in simp_all)
  then have change: "get_symbol_24h_percentual_change ''BTC'' ?c0 = (Inr 10, sent ?c0 [?t])"
    by simp
  have "get_symbol_24h_volume ''BTC'' (sent ?c0 [?t])
          = (Inr 500000, sent (sent ?c0 [?t]) [Call_ticker24h (upper ''BTC'' @ ''-EUR'')])"
    by (rule stub_volume [where tick = ?tick and opened = 100 and latest = 110])
      (use b a in simp_all)
  then have volume: "get_symbol_24h_volume ''BTC'' (sent ?c0 [?t])
                       = (Inr 500000, sent ?c0 [?t, ?t])"
    by simp
  have "\<exists>cs new. get_candles ''BTC'' ''1d'' ''1m'' (sent ?c0 [?t, ?t])
                     = (Inr cs, sent (sent ?c0 [?t, ?t]) new) \<and>
           close_positions cs = replicate 29 100 @ [101] \<and> length (timestamps cs) = Suc 29"
    by (rule stub_candles [OF _ _ one_day]) (use b a in simp_all)
  then obtain cs new where
    fetched: "get_candles ''BTC'' ''1d'' ''1m'' (sent ?c0 [?t, ?t])
                = (Inr cs, sent (sent ?c0 [?t, ?t]) new)"
    and closes: "close_positions cs = replicate 29 100 @ [100 + 1]"
    and count: "length (timestamps cs) = 30"
    by auto
  from macd_flat_then_rise [of 12 39 9 29 1 cs 100 default_periods, OF _ _ _ _ _ closes]
  obtain df where
    ind: "macd_indicator (From_candles cs) 12 39 9 = Inr df"
    and buy: "macd_signal (From_frame df) default_periods = Inr BUY"
    by auto
  have full: "int (length (timestamps cs)) = \<lceil>(30 * 24 * 60 * 60) / (24 * 60 * 60 :: real)\<rceil>"
    using count by simp
  let ?c3 = "sent (sent ?c0 [?t, ?t]) new"
  have btc: "examine_symbol 250000 (''1d'', 12, 39, 9) ''BTC'' [] ?c0 = (Inr [], ?c3)"
    by (rule examine_skip_count [OF change _ volume _ fetched]) (use count in simp_all)
  have "get_symbol_24h_percentual_change ''EUR'' ?c3 = (Inr 0, ?c3)"
    by (rule stub_change_EUR) (use b a in simp_all)
  then have eur: "examine_symbol 250000 (''1d'', 12, 39, 9) ''EUR'' [] ?c3 = (Inr [], ?c3)"
    by (rule examine_skip_growth) simp
  have scan: "get_promising_symbols 250000 (''1d'', 12, 39, 9) daily_client = (Inr [], ?c3)"
    using symbols btc eur by (simp add: get_promising_symbols_def seq_def ret_def)
  from change volume fetched full ind buy scan show ?thesis by blast
qed

end
